theory Spec2Isabelle
  imports Complex_Main "HOL-Library.Multiset" "HOL-Library.Log_Nat"
begin

section \<open>Content decay analysis: the data model\<close>

text \<open>
  The analysis engine is JavaScript, whose numbers are IEEE 754 doubles. Click and
  impression counts, which the reporting API delivers as whole numbers, are \<open>int\<close>;
  click-through rate, position and every derived percentage are \<open>rat\<close>, a rational
  standing for the double nearest to it (\<open>1 / 10\<close> is the double the literal \<open>0.1\<close>
  denotes), and the arithmetic of the code is the rounded arithmetic of the section
  below. \<open>null\<close> is \<open>None\<close>; reading a property of \<open>null\<close> throws a TypeError, which
  the model returns as a value.
\<close>

datatype error = TypeError

record metrics =
  clicks :: int
  impressions :: int
  ctr :: rat
  position :: rat

text \<open>One row of the comparator's output: \<open>{page, current, previous, recent, isNew}\<close>.\<close>

record page_comparison =
  page :: string
  current :: metrics
  previous :: "metrics option"
  recent :: "metrics option"
  isNew :: bool

text \<open>The \<open>changes\<close> object \<open>{clicks, impressions, ctr, position}\<close> of a diagnosis.\<close>

record changes =
  chg_clicks :: rat
  chg_impressions :: rat
  chg_ctr :: rat
  chg_position :: rat

datatype decay_class = GhostTown | Zombie | Plunge | Bleeder | RankRot | HealthyClass | Decaying

datatype severity = Critical | Warning | Monitoring | Healthy

text \<open>
  The object returned by \<open>diagnoseDecay\<close>. \<open>severity\<close> is the result of a property
  lookup in \<open>severityMap\<close>, which is \<open>undefined\<close> (\<open>None\<close>) for a missing key.
\<close>

record diagnosis =
  score :: int
  decayClass :: decay_class
  severity :: "severity option"
  changes :: changes
  signals :: "string list"
  symptoms :: "string list"
  recommendation :: "string list"

text \<open>\<open>{...page, decay: diagnosis}\<close>: the page with one more property.\<close>

record 'd analyzed_page = page_comparison +
  decay :: 'd

record weights =
  w_clicks :: rat
  w_impressions :: rat
  w_ctr :: rat
  w_position :: rat

text \<open>
  The options object a caller hands to the analysis. It is an open JavaScript object, so
  a caller may set any property: the model keeps \<open>weights\<close>, which the code reads, and
  \<open>cliffThresholdPct\<close>, which the specification names as the configured cliff threshold
  and no function of the engine reads. \<open>None\<close> is an absent property.
\<close>

record options =
  opt_weights :: "weights option"
  opt_cliffThresholdPct :: "rat option"

section \<open>Double arithmetic\<close>

text \<open>
  \<open>binade x\<close> is the exponent \<open>e\<close> with \<open>2^e \<le> |x| < 2^(e+1)\<close>, found from the bit
  lengths of numerator and denominator. \<open>rne\<close> rounds to the nearest integer, a tie going
  to the even one. \<open>fl x\<close> is the double nearest to \<open>x\<close>: \<open>x\<close> rounded to 53 significant
  bits. The exponent is not bounded: overflow to infinity and the subnormal range (below
  \<open>2^-1022\<close>) are outside the model, as are \<open>NaN\<close> and the sign of zero.
\<close>

definition binade :: "rat \<Rightarrow> int" where
  "binade x =
     (let (p, q) = quotient_of \<bar>x\<bar>;
          d = bitlen p - bitlen q
      in if 2 powi d \<le> \<bar>x\<bar> then d else d - 1)"

definition rne :: "rat \<Rightarrow> int" where
  "rne y =
     (let f = \<lfloor>y\<rfloor>; r = y - of_int f
      in if r < 1 / 2 then f
         else if 1 / 2 < r then f + 1
         else if even f then f else f + 1)"

definition fl :: "rat \<Rightarrow> rat" where
  "fl x =
     (if x = 0 then 0
      else (let u = 2 powi (binade x - 52) in of_int (rne (x / u)) * u))"

text \<open>
  The operators \<open>+\<close>, \<open>-\<close>, \<open>*\<close> and \<open>/\<close> of the code: the operands are read as
  doubles and the exact result is rounded to a double.
\<close>

definition dadd :: "rat \<Rightarrow> rat \<Rightarrow> rat" where
  "dadd a b = fl (fl a + fl b)"

definition dsub :: "rat \<Rightarrow> rat \<Rightarrow> rat" where
  "dsub a b = fl (fl a - fl b)"

definition dmul :: "rat \<Rightarrow> rat \<Rightarrow> rat" where
  "dmul a b = fl (fl a * fl b)"

definition ddiv :: "rat \<Rightarrow> rat \<Rightarrow> rat" where
  "ddiv a b = fl (fl a / fl b)"

section \<open>Numeric helpers\<close>

text \<open>\<open>Math.round\<close>: the nearest integer, a tie going up.\<close>

definition Math_round :: "rat \<Rightarrow> int" where
  "Math_round x = \<lfloor>x + 1 / 2\<rfloor>"

text \<open>
  \<open>Math.round(x * 10) / 10\<close>: a whole number of tenths, standing for the double nearest
  to it.
\<close>

definition round1 :: "rat \<Rightarrow> rat" where
  "round1 x = of_int (Math_round (dmul x 10)) / 10"

text \<open>
  \<open>calculatePercentChange(current, previous)\<close>, the same function in both analyzer files.
\<close>

definition calculatePercentChange :: "rat \<Rightarrow> rat \<Rightarrow> rat" where
  "calculatePercentChange cur prev =
     (if prev = 0 then (if cur > 0 then 100 else 0)
      else dmul (ddiv (dsub cur prev) prev) 100)"

section \<open>The revival diagnoser\<close>

text \<open>Emoji of the source's string literals, as their UTF-8 bytes.\<close>

definition emoji_ghost :: string where
  "emoji_ghost = [CHR 0xF0, CHR 0x9F, CHR 0x91, CHR 0xBB]"

definition emoji_zombie :: string where
  "emoji_zombie = [CHR 0xF0, CHR 0x9F, CHR 0xA7, CHR 0x9F]"

definition emoji_chart :: string where
  "emoji_chart = [CHR 0xF0, CHR 0x9F, CHR 0x93, CHR 0x89]"

definition emoji_blood :: string where
  "emoji_blood = [CHR 0xF0, CHR 0x9F, CHR 0xA9, CHR 0xB8]"

definition emoji_swords :: string where
  "emoji_swords = [CHR 0xE2, CHR 0x9A, CHR 0x94, CHR 0xEF, CHR 0xB8, CHR 0x8F]"

definition emoji_money :: string where
  "emoji_money = [CHR 0xF0, CHR 0x9F, CHR 0x92, CHR 0xB0]"

text \<open>Step 1 of \<open>diagnoseDecay\<close>: the unrounded deltas.\<close>

definition standardDeltas :: "metrics \<Rightarrow> metrics \<Rightarrow> changes" where
  "standardDeltas cur prev =
     \<lparr> chg_clicks = calculatePercentChange (of_int (clicks cur)) (of_int (clicks prev)),
       chg_impressions =
         calculatePercentChange (of_int (impressions cur)) (of_int (impressions prev)),
       chg_ctr = calculatePercentChange (ctr cur) (ctr prev),
       chg_position = dsub (position prev) (position cur) \<rparr>"

text \<open>
  Step 2: the revival score, with \<open>idealCtr = 0.20\<close>. The counts are whole numbers, so
  the difference is a whole number of fifths, which is never within a tenth of a tie of
  \<open>Math.round\<close>; the model takes it without rounding error.
\<close>

definition idealCtr :: rat where
  "idealCtr = 20 / 100"

definition potentialClicks :: "metrics \<Rightarrow> rat" where
  "potentialClicks cur = of_int (impressions cur) * idealCtr"

definition revivalScore :: "metrics \<Rightarrow> int" where
  "revivalScore cur = max 0 (Math_round (potentialClicks cur - of_int (clicks cur)))"

text \<open>
  Step 3: the velocity check. \<open>velocityChange\<close> is the local of that name, computed
  inside \<open>if (recent)\<close>; \<open>isCliff\<close> starts \<open>false\<close> and is set when the change is
  below the literal \<open>-30\<close>.
\<close>

definition velocityChange :: "metrics \<Rightarrow> metrics \<Rightarrow> rat" where
  "velocityChange cur rec =
     (let dailyClicksMonth = of_int (clicks cur) / 30;
          dailyClicksWeek = of_int (clicks rec) / 7
      in calculatePercentChange dailyClicksWeek dailyClicksMonth)"

definition isCliff :: "metrics \<Rightarrow> metrics option \<Rightarrow> bool" where
  "isCliff cur recent_opt =
     (case recent_opt of
        None \<Rightarrow> False
      | Some rec \<Rightarrow> velocityChange cur rec < - 30)"

text \<open>
  Step 4: the taxonomy. The chain of \<open>if\<close>/\<open>else if\<close> sets \<open>decayClass\<close> and pushes
  onto \<open>signals\<close> and \<open>symptoms\<close>, both empty before it; the triple is their final
  value. The rate is compared as the double it is held as.
\<close>

definition taxonomy ::
  "metrics \<Rightarrow> changes \<Rightarrow> bool \<Rightarrow> decay_class \<times> string list \<times> string list" where
  "taxonomy cur chg cliff =
     (if clicks cur = 0 \<and> impressions cur < 100 then
        (GhostTown, [], [emoji_ghost @ '' Ghost Town''])
      else if impressions cur > 1000 \<and> fl (ctr cur) < 5 / 10 then
        (Zombie, [''low_ctr_high_imp''], [emoji_zombie @ '' Zombie Page''])
      else if cliff then
        (Plunge, [''velocity_cliff''], [emoji_chart @ '' The Plunge''])
      else if chg_clicks chg < - 10 \<and> chg_position chg > - 2 then
        (Bleeder, [''slow_bleed''], [emoji_blood @ '' The Bleeder''])
      else if chg_position chg < - 3 then
        (RankRot, [], [emoji_swords @ '' Rank Rot''])
      else if chg_clicks chg > - 5 then
        (HealthyClass, [], [])
      else
        (Decaying, [], [''Decay Detected'']))"

text \<open>Step 5: the object literal \<open>severityMap\<close>, in the order of the source.\<close>

definition severityMap :: "(decay_class \<times> severity) list" where
  "severityMap =
     [(Plunge, Critical), (Zombie, Warning), (RankRot, Critical), (Bleeder, Warning),
      (GhostTown, Monitoring), (Decaying, Monitoring), (HealthyClass, Healthy)]"

section \<open>Numbers as text\<close>

text \<open>
  A template literal turns a number into its decimal text. Every number the engine
  prints is a whole number or a value of \<open>Math.round(x * 10) / 10\<close>, which JavaScript
  prints with at most one digit after the point (for magnitudes below \<open>10^21\<close>);
  \<open>number_string\<close> is that text.
\<close>

definition digit_chars :: string where
  "digit_chars = ''0123456789''"

fun decimal :: "nat \<Rightarrow> string" where
  "decimal n =
     (if n < 10 then [digit_chars ! n]
      else decimal (n div 10) @ [digit_chars ! (n mod 10)])"

definition number_string :: "rat \<Rightarrow> string" where
  "number_string x =
     (let t = nat \<lfloor>\<bar>x\<bar> * 10\<rfloor>
      in (if x < 0 then ''-'' else []) @ decimal (t div 10) @
         (if t mod 10 = 0 then [] else ''.'' @ decimal (t mod 10)))"

section \<open>Recommendations and the diagnosis\<close>

definition getRevivalRecommendations :: "decay_class \<Rightarrow> string list \<Rightarrow> int \<Rightarrow> string list" where
  "getRevivalRecommendations cls sigs rscore =
     (let recs =
        (if cls = Zombie then
           [emoji_zombie @
              '' **Revive this Zombie**: It has visibility but no clicks. Fix the Title & Meta Description ASAP.'',
            emoji_money @ '' **Opportunity**: Optimizing this could yield ~'' @
              number_string (of_int rscore) @ '' more clicks.'']
         else if cls = Plunge then
           [emoji_chart @
              '' **Stop the Plunge**: Technical audit required. Check robots.txt and recent code pushes.'']
         else if cls = Bleeder then
           [emoji_blood @ '' **Stem the Bleed**: Your content is aging. Add a '' @ [CHR 0x22] @
              ''Last Updated'' @ [CHR 0x22] @ '' section and fresh stats.'']
         else if cls = RankRot then
           [emoji_swords @
              '' **Fight Back**: Competitors overtook you. Expand word count and add unique video/images.'']
         else if cls = GhostTown then
           [emoji_ghost @
              '' **Exorcise**: This page is dead. Consider deleting or 301 redirecting to a healthy page.'']
         else [])
      in if length recs = 0 then [''Monitor performance.''] else recs)"

text \<open>
  \<open>diagnoseDecay(page, weights)\<close>. Reading \<open>previous.clicks\<close> of a \<open>null\<close> previous
  throws; \<open>weights\<close> is received and never read.
\<close>

definition diagnoseDecay :: "page_comparison \<Rightarrow> weights \<Rightarrow> error + diagnosis" where
  "diagnoseDecay pg wts =
     (case previous pg of
        None \<Rightarrow> Inl TypeError
      | Some prev \<Rightarrow>
          (let cur = current pg;
               chg = standardDeltas cur prev;
               rscore = revivalScore cur;
               cliff = isCliff cur (recent pg);
               (cls, sigs, symps) = taxonomy cur chg cliff
           in Inr \<lparr> score = rscore,
                    decayClass = cls,
                    severity = map_of severityMap cls,
                    changes = \<lparr> chg_clicks = round1 (chg_clicks chg),
                                chg_impressions = round1 (chg_impressions chg),
                                chg_ctr = round1 (chg_ctr chg),
                                chg_position = round1 (chg_position chg) \<rparr>,
                    signals = sigs,
                    symptoms = symps,
                    recommendation = getRevivalRecommendations cls sigs rscore \<rparr>))"

section \<open>The analysis run\<close>

record date_range =
  startDate :: string
  endDate :: string

record date_ranges =
  dr_current :: date_range
  dr_previous :: date_range

text \<open>
  The first argument of \<open>analyzeContentDecay\<close> is either the old format, an array of
  pages, or the new one, an object \<open>{pages, dateRanges}\<close>.
\<close>

datatype comparison_result =
    PageArray "page_comparison list"
  | ComparisonObject "page_comparison list" "date_ranges option"

fun pages_of :: "comparison_result \<Rightarrow> page_comparison list" where
  "pages_of (PageArray ps) = ps"
| "pages_of (ComparisonObject ps dr) = ps"

fun dateRanges_of :: "comparison_result \<Rightarrow> date_ranges option" where
  "dateRanges_of (PageArray ps) = None"
| "dateRanges_of (ComparisonObject ps dr) = dr"

record analysis_result =
  pages :: "diagnosis analyzed_page list"
  dateRanges :: "date_ranges option"

definition defaultWeights :: weights where
  "defaultWeights = \<lparr> w_clicks = 4 / 10, w_impressions = 3 / 10, w_ctr = 2 / 10, w_position = 2 \<rparr>"

text \<open>\<open>Array.prototype.map\<close> with a callback that may throw: the first throw ends the run.\<close>

fun map_result :: "('a \<Rightarrow> error + 'b) \<Rightarrow> 'a list \<Rightarrow> error + 'b list" where
  "map_result f [] = Inr []"
| "map_result f (x # xs) =
     (case f x of
        Inl e \<Rightarrow> Inl e
      | Inr y \<Rightarrow> (case map_result f xs of Inl e \<Rightarrow> Inl e | Inr ys \<Rightarrow> Inr (y # ys)))"

definition annotate :: "weights \<Rightarrow> page_comparison \<Rightarrow> error + diagnosis analyzed_page" where
  "annotate wts pg =
     (case diagnoseDecay pg wts of
        Inl e \<Rightarrow> Inl e
      | Inr d \<Rightarrow> Inr (page_comparison.extend pg (analyzed_page.fields d)))"

text \<open>
  \<open>analyzeContentDecay(comparisonResult, options)\<close>: filter, map, sort. The comparator
  \<open>(a, b) => b.decay.score - a.decay.score\<close> orders by falling score and
  \<open>Array.prototype.sort\<close> is stable, which is \<open>sort_key\<close> on the negated score.
\<close>

definition analyzeContentDecay :: "comparison_result \<Rightarrow> options \<Rightarrow> error + analysis_result" where
  "analyzeContentDecay comparisonResult opts =
     (let wts = (case opt_weights opts of Some w \<Rightarrow> w | None \<Rightarrow> defaultWeights);
          pgs = pages_of comparisonResult;
          drs = dateRanges_of comparisonResult
      in case map_result (annotate wts) (filter (\<lambda>pg. previous pg \<noteq> None) pgs) of
           Inl e \<Rightarrow> Inl e
         | Inr analyzed \<Rightarrow>
             Inr \<lparr> pages = sort_key (\<lambda>p. - score (decay p)) analyzed, dateRanges = drs \<rparr>)"

section \<open>The site summary\<close>

record 'p severity_groups =
  critical :: "'p list"
  warning :: "'p list"
  monitoring :: "'p list"
  healthy :: "'p list"

record site_summary =
  totalPages :: nat
  criticalCount :: nat
  warningCount :: nat
  monitoringCount :: nat
  healthyCount :: nat
  healthScore :: int
  avgDecayScore :: rat

definition groupByDecaySeverity ::
  "diagnosis analyzed_page list \<Rightarrow> (diagnosis analyzed_page) severity_groups" where
  "groupByDecaySeverity analyzedPages =
     \<lparr> critical = filter (\<lambda>p. severity (decay p) = Some Critical) analyzedPages,
       warning = filter (\<lambda>p. severity (decay p) = Some Warning) analyzedPages,
       monitoring = filter (\<lambda>p. severity (decay p) = Some Monitoring) analyzedPages,
       healthy = filter (\<lambda>p. severity (decay p) = Some Healthy) analyzedPages \<rparr>"

definition createEmptySummary :: site_summary where
  "createEmptySummary =
     \<lparr> totalPages = 0, criticalCount = 0, warningCount = 0, monitoringCount = 0,
       healthyCount = 0, healthScore = 100, avgDecayScore = 0 \<rparr>"

definition calculateSiteSummary :: "diagnosis analyzed_page list \<Rightarrow> site_summary" where
  "calculateSiteSummary analyzedPages =
     (if length analyzedPages = 0 then createEmptySummary
      else
        (let grouped = groupByDecaySeverity analyzedPages;
             total = length analyzedPages
         in \<lparr> totalPages = total,
                criticalCount = length (critical grouped),
                warningCount = length (warning grouped),
                monitoringCount = length (monitoring grouped),
                healthyCount = length (healthy grouped),
                healthScore =
                  Math_round
                    (dmul (ddiv (of_nat (length (healthy grouped) + length (monitoring grouped)))
                                (of_nat total)) 100),
                avgDecayScore =
                  round1
                    (ddiv (foldl (\<lambda>sum p. dadd sum (of_int (score (decay p)))) 0 analyzedPages)
                          (of_nat total)) \<rparr>))"

section \<open>The CSV export\<close>













section \<open>The basic analyzer\<close>

text \<open>
  The file \<open>utils/decay-analyzer.js\<close> holds an analyzer of the same interface with a
  weighted score and a severity by score threshold. Its functions carry the suffix
  \<open>_basic\<close> where the name is shared with the revival engine.
\<close>

record decay_metrics =
  dm_score :: rat
  dm_severity :: severity
  dm_changes :: changes
  dm_signals :: "string list"
  dm_recommendation :: "string list"

definition weightedScore :: "changes \<Rightarrow> rat" where
  "weightedScore chg =
     (let s0 = 0;
          s1 = (if chg_clicks chg < 0 then dadd s0 (dmul \<bar>chg_clicks chg\<bar> (4 / 10)) else s0);
          s2 = (if chg_impressions chg < 0 then dadd s1 (dmul \<bar>chg_impressions chg\<bar> (3 / 10))
                else s1);
          s3 = (if chg_ctr chg < 0 then dadd s2 (dmul \<bar>chg_ctr chg\<bar> (2 / 10)) else s2);
          s4 = (if chg_position chg < 0 then dadd s3 (dmul \<bar>chg_position chg\<bar> 2) else s3)
      in s4)"

definition severityOfScore :: "rat \<Rightarrow> severity" where
  "severityOfScore s =
     (if s > 30 then Critical
      else if s > 15 then Warning
      else if s > 5 then Monitoring
      else Healthy)"

definition decaySignals :: "changes \<Rightarrow> string list" where
  "decaySignals chg =
     (if chg_impressions chg < - 20 then [''visibility_drop''] else []) @
     (if chg_clicks chg < - 30 then [''traffic_loss''] else []) @
     (if chg_ctr chg < - 15 then [''ctr_decline''] else []) @
     (if chg_position chg < - 3 then [''ranking_drop''] else [])"

definition getRecommendation :: "severity \<Rightarrow> string list \<Rightarrow> string list" where
  "getRecommendation sev sigs =
     (let r1 =
        (if ''visibility_drop'' \<in> set sigs then
           [''Review indexation status in Search Console'',
            ''Check for technical SEO issues (robots.txt, canonical tags)'',
            ''Verify no recent site structure changes affected this URL'']
         else []);
          r2 = r1 @
        (if ''ctr_decline'' \<in> set sigs then
           [''Update title tag with compelling, current hooks'',
            ''Refresh meta description with clear value proposition'',
            ''Add current year to title if applicable'',
            ''Review competing SERP results for better positioning ideas'']
         else []);
          r3 = r2 @
        (if ''ranking_drop'' \<in> set sigs then
           [''Analyze top-ranking competitors for this topic'',
            ''Update content with fresh information and statistics'',
            ''Add comprehensive coverage of related subtopics'',
            ''Improve content structure with better headings and formatting'']
         else []);
          r4 = r3 @
        (if ''traffic_loss'' \<in> set sigs then
           [''Perform comprehensive content refresh'',
            ''Add internal links from high-authority pages'',
            ''Consider content consolidation if multiple similar pages exist'',
            ''Update with expert quotes or original research'']
         else [])
      in case sev of
           Critical \<Rightarrow>
             ''Schedule immediate review - significant traffic loss detected'' #
             ([CHR 0xF0, CHR 0x9F, CHR 0x9A, CHR 0xA8] @
                '' URGENT: High-priority content refresh needed'') # r4
         | Warning \<Rightarrow>
             ''Monitor closely - decay pattern detected'' #
             ([CHR 0xE2, CHR 0x9A, CHR 0xA0, CHR 0xEF, CHR 0xB8, CHR 0x8F] @
                '' Schedule content refresh within 2-4 weeks'') # r4
         | Monitoring \<Rightarrow>
             ''Consider minor updates and optimization'' #
             ([CHR 0xF0, CHR 0x9F, CHR 0x91, CHR 0x80] @
                '' Keep watching - early signs of potential decay'') # r4
         | Healthy \<Rightarrow>
             r4 @ [[CHR 0xE2, CHR 0x9C, CHR 0x85] @
                '' Content is performing well - maintain current optimization''])"

text \<open>\<open>calculateDecayMetrics(current, previous)\<close>; a \<open>null\<close> previous throws.\<close>

definition calculateDecayMetrics :: "metrics \<Rightarrow> metrics option \<Rightarrow> error + decay_metrics" where
  "calculateDecayMetrics cur prev_opt =
     (case prev_opt of
        None \<Rightarrow> Inl TypeError
      | Some prev \<Rightarrow>
          (let chg = standardDeltas cur prev;
               s = weightedScore chg;
               sev = severityOfScore s;
               sigs = decaySignals chg
           in Inr \<lparr> dm_score = round1 s,
                    dm_severity = sev,
                    dm_changes = \<lparr> chg_clicks = round1 (chg_clicks chg),
                                   chg_impressions = round1 (chg_impressions chg),
                                   chg_ctr = round1 (chg_ctr chg),
                                   chg_position = round1 (chg_position chg) \<rparr>,
                    dm_signals = sigs,
                    dm_recommendation = getRecommendation sev sigs \<rparr>))"

definition annotate_basic :: "page_comparison \<Rightarrow> error + decay_metrics analyzed_page" where
  "annotate_basic pg =
     (case calculateDecayMetrics (current pg) (previous pg) of
        Inl e \<Rightarrow> Inl e
      | Inr d \<Rightarrow> Inr (page_comparison.extend pg (analyzed_page.fields d)))"

definition analyzeContentDecay_basic ::
  "page_comparison list \<Rightarrow> error + decay_metrics analyzed_page list" where
  "analyzeContentDecay_basic pageComparisons =
     (case map_result annotate_basic (filter (\<lambda>pg. previous pg \<noteq> None) pageComparisons) of
        Inl e \<Rightarrow> Inl e
      | Inr analyzed \<Rightarrow> Inr (sort_key (\<lambda>p. - dm_score (decay p)) analyzed))"

section \<open>Auxiliary definitions for the statements\<close>

text \<open>The rounding of the four deltas that both analyzers apply to the returned \<open>changes\<close>.\<close>

definition deltas_rounded :: "changes \<Rightarrow> changes" where
  "deltas_rounded chg = \<lparr> chg_clicks = round1 (chg_clicks chg),
                       chg_impressions = round1 (chg_impressions chg),
                       chg_ctr = round1 (chg_ctr chg),
                       chg_position = round1 (chg_position chg) \<rparr>"

text \<open>A page whose previous period had no clicks, no impressions and a zero rate.\<close>

definition zero_previous_page :: page_comparison where
  "zero_previous_page =
     \<lparr> page = ''https://example.com/new'',
       current = \<lparr> clicks = 7, impressions = 0, ctr = 3 / 100, position = 4 \<rparr>,
       previous = Some \<lparr> clicks = 0, impressions = 0, ctr = 0, position = 9 \<rparr>,
       recent = None, isNew = False \<rparr>"

text \<open>
  The severity table as the specification words it, to be compared with the lookup in
  \<open>severityMap\<close>.
\<close>

fun severity_table_spec :: "decay_class \<Rightarrow> severity" where
  "severity_table_spec Plunge = Critical"
| "severity_table_spec RankRot = Critical"
| "severity_table_spec Zombie = Warning"
| "severity_table_spec Bleeder = Warning"
| "severity_table_spec GhostTown = Monitoring"
| "severity_table_spec Decaying = Monitoring"
| "severity_table_spec HealthyClass = Healthy"

text \<open>
  The classification as the specification words it: a list of rules, each a trigger and
  a class, of which the first whose trigger holds wins, and a fallback class. The rate
  is read as the double it is held as.
\<close>

fun first_match_spec :: "(bool \<times> 'a) list \<Rightarrow> 'a \<Rightarrow> 'a" where
  "first_match_spec [] dflt = dflt"
| "first_match_spec ((c, v) # rules) dflt = (if c then v else first_match_spec rules dflt)"

definition classification_rules_spec ::
  "metrics \<Rightarrow> rat \<Rightarrow> rat \<Rightarrow> bool \<Rightarrow> (bool \<times> decay_class) list" where
  "classification_rules_spec cur clicksPct positionDelta cliff =
     [(clicks cur = 0 \<and> impressions cur < 100, GhostTown),
      (impressions cur > 1000 \<and> fl (ctr cur) < 1 / 2, Zombie),
      (cliff, Plunge),
      (clicksPct < - 10 \<and> positionDelta > - 2, Bleeder),
      (positionDelta < - 3, RankRot),
      (clicksPct > - 5, HealthyClass)]"

text \<open>
  The second worked example. It gives no rate and no recent position: they are
  parameters.
\<close>

definition example_rank_rot :: "rat \<Rightarrow> rat \<Rightarrow> rat \<Rightarrow> rat \<Rightarrow> page_comparison" where
  "example_rank_rot c1 c2 c3 p3 =
     \<lparr> page = ''https://example.com/rank-rot'',
       current = \<lparr> clicks = 50, impressions = 500, ctr = c1, position = 10 \<rparr>,
       previous = Some \<lparr> clicks = 300, impressions = 2000, ctr = c2, position = 5 \<rparr>,
       recent = Some \<lparr> clicks = 20, impressions = 150, ctr = c3, position = p3 \<rparr>,
       isNew = False \<rparr>"

text \<open>
  The cliff threshold as the specification words it: the configured option, \<open>-30\<close> when
  it is not set.
\<close>

definition cliffThresholdPct_spec :: "options \<Rightarrow> rat" where
  "cliffThresholdPct_spec opts = (case opt_cliffThresholdPct opts of None \<Rightarrow> - 30 | Some t \<Rightarrow> t)"

definition isCliff_spec :: "options \<Rightarrow> metrics \<Rightarrow> metrics option \<Rightarrow> bool" where
  "isCliff_spec opts cur recent_opt =
     (case recent_opt of
        None \<Rightarrow> False
      | Some rec \<Rightarrow>
          calculatePercentChange (of_int (clicks rec) / 7) (of_int (clicks cur) / 30)
            < cliffThresholdPct_spec opts)"

text \<open>The classes of the pages an analysis run returns, in order.\<close>

definition classes_of_run :: "comparison_result \<Rightarrow> options \<Rightarrow> error + decay_class list" where
  "classes_of_run cr opts =
     (case analyzeContentDecay cr opts of
        Inl e \<Rightarrow> Inl e
      | Inr r \<Rightarrow> Inr (map (\<lambda>p. decayClass (decay p)) (pages r)))"

text \<open>
  A page whose last week ran at half the daily rate of its month (5 clicks a day against
  10), and options that configure a threshold of \<open>-80\<close>.
\<close>

definition cliff_page :: page_comparison where
  "cliff_page =
     \<lparr> page = ''https://example.com/cliff'',
       current = \<lparr> clicks = 300, impressions = 900, ctr = 1 / 3, position = 4 \<rparr>,
       previous = Some \<lparr> clicks = 310, impressions = 900, ctr = 31 / 90, position = 4 \<rparr>,
       recent = Some \<lparr> clicks = 35, impressions = 200, ctr = 7 / 40, position = 4 \<rparr>,
       isNew = False \<rparr>"

definition cliff_options :: options where
  "cliff_options = \<lparr> opt_weights = None, opt_cliffThresholdPct = Some (- 80) \<rparr>"

text \<open>
  The first worked example. Its rates are given as 0.1% and 3.3%; \<open>scale\<close> is 1 for
  rates carried as percentages and 1/100 for rates carried as fractions.
\<close>

definition example_zombie :: "rat \<Rightarrow> page_comparison" where
  "example_zombie scale =
     \<lparr> page = ''https://example.com/zombie'',
       current = \<lparr> clicks = 5, impressions = 5000, ctr = (1 / 10) * scale, position = 8 \<rparr>,
       previous = Some \<lparr> clicks = 200, impressions = 6000, ctr = (33 / 10) * scale, position = 6 \<rparr>,
       recent = None, isNew = False \<rparr>"

text \<open>
  A page with a clicks change of -50, an impressions change of -25 and a position that
  fell by five places.
\<close>

definition signals_page :: page_comparison where
  "signals_page =
     \<lparr> page = ''https://example.com/signals'',
       current = \<lparr> clicks = 50, impressions = 750, ctr = 1 / 15, position = 10 \<rparr>,
       previous = Some \<lparr> clicks = 100, impressions = 1000, ctr = 1 / 10, position = 5 \<rparr>,
       recent = None, isNew = False \<rparr>"

text \<open>
  The site summary of the basic analyzer: the same fields, and the top decaying pages.
\<close>

record site_summary_basic = site_summary +
  topDecayingPages :: "decay_metrics analyzed_page list"

definition groupByDecaySeverity_basic ::
  "decay_metrics analyzed_page list \<Rightarrow> (decay_metrics analyzed_page) severity_groups" where
  "groupByDecaySeverity_basic analyzedPages =
     \<lparr> critical = filter (\<lambda>p. dm_severity (decay p) = Critical) analyzedPages,
       warning = filter (\<lambda>p. dm_severity (decay p) = Warning) analyzedPages,
       monitoring = filter (\<lambda>p. dm_severity (decay p) = Monitoring) analyzedPages,
       healthy = filter (\<lambda>p. dm_severity (decay p) = Healthy) analyzedPages \<rparr>"

definition calculateSiteSummary_basic :: "decay_metrics analyzed_page list \<Rightarrow> site_summary_basic" where
  "calculateSiteSummary_basic analyzedPages =
     (if length analyzedPages = 0 then
        \<lparr> totalPages = 0, criticalCount = 0, warningCount = 0, monitoringCount = 0,
          healthyCount = 0, healthScore = 100, avgDecayScore = 0, topDecayingPages = [] \<rparr>
      else
        (let grouped = groupByDecaySeverity_basic analyzedPages;
             total = length analyzedPages;
             healthyAndMonitoring = length (healthy grouped) + length (monitoring grouped);
             hScore = Math_round (dmul (ddiv (of_nat healthyAndMonitoring) (of_nat total)) 100);
             totalDecayScore = foldl (\<lambda>sum p. dadd sum (dm_score (decay p))) 0 analyzedPages;
             avgScore = round1 (ddiv totalDecayScore (of_nat total));
             top = take 15 (take 10 (critical grouped) @ take 10 (warning grouped))
         in \<lparr> totalPages = total,
                criticalCount = length (critical grouped),
                warningCount = length (warning grouped),
                monitoringCount = length (monitoring grouped),
                healthyCount = length (healthy grouped),
                healthScore = hScore,
                avgDecayScore = avgScore,
                topDecayingPages = top \<rparr>))"

text \<open>
  Analyzed pages of a given class and score, and of a given weighted score, with the
  severity the analyzer derives from them; the lists below are built from them.
\<close>

definition analyzed_fixture :: "decay_class \<Rightarrow> int \<Rightarrow> diagnosis analyzed_page" where
  "analyzed_fixture cls sc =
     page_comparison.extend zero_previous_page
       (analyzed_page.fields
          \<lparr> score = sc, decayClass = cls, severity = map_of severityMap cls,
            changes = \<lparr> chg_clicks = 100, chg_impressions = 0, chg_ctr = 100, chg_position = 5 \<rparr>,
            signals = [], symptoms = [],
            recommendation = getRevivalRecommendations cls [] sc \<rparr>)"

definition basic_fixture :: "rat \<Rightarrow> decay_metrics analyzed_page" where
  "basic_fixture sc =
     page_comparison.extend zero_previous_page
       (analyzed_page.fields
          \<lparr> dm_score = sc, dm_severity = severityOfScore sc,
            dm_changes = \<lparr> chg_clicks = 100, chg_impressions = 0, chg_ctr = 100, chg_position = 5 \<rparr>,
            dm_signals = [],
            dm_recommendation = getRecommendation (severityOfScore sc) [] \<rparr>)"

definition mixed_pages :: "diagnosis analyzed_page list" where
  "mixed_pages = [analyzed_fixture HealthyClass 3, analyzed_fixture Plunge 4, analyzed_fixture GhostTown 0]"

definition critical_pages :: "diagnosis analyzed_page list" where
  "critical_pages = [analyzed_fixture Plunge 10, analyzed_fixture RankRot 5]"

definition critical_pages_basic :: "decay_metrics analyzed_page list" where
  "critical_pages_basic = [basic_fixture 40, basic_fixture (63 / 2)]"

text \<open>
  Forty pages of which 23 are healthy, and two pages of the basic analyzer with the
  scores 0.1 and 4.6.
\<close>

definition forty_pages :: "diagnosis analyzed_page list" where
  "forty_pages =
     replicate 23 (analyzed_fixture HealthyClass 0) @ replicate 17 (analyzed_fixture Plunge 5)"

definition tenth_pages :: "decay_metrics analyzed_page list" where
  "tenth_pages = [basic_fixture (1 / 10), basic_fixture (46 / 10)]"

text \<open>
  A page without a previous period, and the input of a run: two pages with history around
  one without.
\<close>

definition new_page :: page_comparison where
  "new_page =
     \<lparr> page = ''https://example.com/brand-new'',
       current = \<lparr> clicks = 12, impressions = 340, ctr = 3 / 85, position = 7 \<rparr>,
       previous = None, recent = None, isNew = True \<rparr>"

definition run_input :: "page_comparison list" where
  "run_input = [example_rank_rot (1 / 10) (3 / 20) (2 / 15) 11, new_page, example_zombie 1]"

definition no_options :: options where
  "no_options = \<lparr> opt_weights = None, opt_cliffThresholdPct = None \<rparr>"

section \<open>Pages for the export and for the thresholds\<close>

definition url_a :: string where
  "url_a = ''https://example.com/a''"





text \<open>
  A page with 100 clicks and 500 impressions in both periods, of given rates and
  positions: previous rate, current rate, previous position, current position.
\<close>

definition level_page :: "rat \<Rightarrow> rat \<Rightarrow> rat \<Rightarrow> rat \<Rightarrow> page_comparison" where
  "level_page r_prev r_cur p_prev p_cur =
     \<lparr> page = url_a,
       current = \<lparr> clicks = 100, impressions = 500, ctr = r_cur, position = p_cur \<rparr>,
       previous = Some \<lparr> clicks = 100, impressions = 500, ctr = r_prev, position = p_prev \<rparr>,
       recent = None, isNew = False \<rparr>"


section \<open>The double arithmetic\<close>

text \<open>
  \<open>binade\<close> gives the exponent of its argument, and \<open>fl\<close> is determined by the
  exponent and the nearest mantissa: \<open>fl_eqI\<close> away from a tie, \<open>fl_tieI\<close> at one.
\<close>

lemma powi_less_cancel:
  assumes "(2::rat) powi m < 2 powi n"
  shows "m < n"
proof (rule ccontr)
  assume "\<not> m < n"
  then have "n \<le> m" by simp
  then have "(2::rat) powi n \<le> 2 powi m" by (intro power_int_increasing) simp_all
  with assms show False by simp
qed

lemma binade_bounds:
  assumes "x \<noteq> 0"
  shows "2 powi binade x \<le> \<bar>x\<bar>" and "\<bar>x\<bar> < 2 powi (binade x + 1)"
proof -
  obtain p q where pq: "quotient_of \<bar>x\<bar> = (p, q)" by (cases "quotient_of \<bar>x\<bar>")
  have q: "0 < q" using pq by (rule quotient_of_denom_pos)
  have a: "\<bar>x\<bar> = of_int p / of_int q" using pq by (rule quotient_of_div)
  have "0 < \<bar>x\<bar>" using assms by simp
  then have p: "0 < p" using a q by (simp add: zero_less_divide_iff)
  define bp where "bp = floorlog 2 (nat p)"
  define bq where "bq = floorlog 2 (nat q)"
  define d where "d = int bp - int bq"
  have bp: "2 ^ (bp - 1) \<le> nat p" "nat p < 2 ^ bp"
    using floorlog_bounds[of "nat p" 2] p by (simp_all add: bp_def)
  have bq: "2 ^ (bq - 1) \<le> nat q" "nat q < 2 ^ bq"
    using floorlog_bounds[of "nat q" 2] q by (simp_all add: bq_def)
  have "bp \<noteq> 0" using p floorlog_eq_zero_iff[of 2 "nat p"] by (simp add: bp_def)
  then have bp1: "1 \<le> bp" by simp
  have "bq \<noteq> 0" using q floorlog_eq_zero_iff[of 2 "nat q"] by (simp add: bq_def)
  then have bq1: "1 \<le> bq" by simp
  have P: "(2::rat) ^ (bp - 1) \<le> of_int p" "(of_int p :: rat) < 2 ^ bp"
  proof -
    have "of_nat (2 ^ (bp - 1)) \<le> (of_nat (nat p) :: rat)" using bp(1) by (rule of_nat_mono)
    then show "(2::rat) ^ (bp - 1) \<le> of_int p" using p by simp
    have "(of_nat (nat p) :: rat) < of_nat (2 ^ bp)" using bp(2) by (simp only: of_nat_less_iff)
    then show "(of_int p :: rat) < 2 ^ bp" using p by simp
  qed
  have Q: "(2::rat) ^ (bq - 1) \<le> of_int q" "(of_int q :: rat) < 2 ^ bq"
  proof -
    have "of_nat (2 ^ (bq - 1)) \<le> (of_nat (nat q) :: rat)" using bq(1) by (rule of_nat_mono)
    then show "(2::rat) ^ (bq - 1) \<le> of_int q" using q by simp
    have "(of_nat (nat q) :: rat) < of_nat (2 ^ bq)" using bq(2) by (simp only: of_nat_less_iff)
    then show "(of_int q :: rat) < 2 ^ bq" using q by simp
  qed
  have qpos: "(0::rat) < of_int q" using q by simp
  have up: "\<bar>x\<bar> < 2 powi (d + 1)"
  proof -
    have "of_int p * (2::rat) ^ (bq - 1) < 2 ^ bp * of_int q"
    proof -
      have "of_int p * (2::rat) ^ (bq - 1) \<le> of_int p * of_int q"
        using Q(1) p by (intro mult_left_mono) simp_all
      also have "\<dots> < 2 ^ bp * of_int q"
        using P(2) qpos by (intro mult_strict_right_mono)
      finally show ?thesis .
    qed
    then have "of_int p / of_int q < (2::rat) ^ bp / 2 ^ (bq - 1)"
      using qpos by (simp add: field_simps)
    also have "(2::rat) ^ bp / 2 ^ (bq - 1) = 2 powi (int bp - int (bq - 1))"
      by (simp add: power_int_diff)
    also have "int bp - int (bq - 1) = d + 1" using bq1 by (simp add: d_def)
    finally show ?thesis by (simp add: a)
  qed
  have lo: "2 powi (d - 1) \<le> \<bar>x\<bar>"
  proof -
    have "(2::rat) ^ (bp - 1) * of_int q \<le> of_int p * 2 ^ bq"
    proof -
      have "(2::rat) ^ (bp - 1) * of_int q \<le> of_int p * of_int q"
        using P(1) qpos by (intro mult_right_mono) simp_all
      also have "\<dots> \<le> of_int p * 2 ^ bq"
        using Q(2) p by (intro mult_left_mono) simp_all
      finally show ?thesis .
    qed
    then have "(2::rat) ^ (bp - 1) / 2 ^ bq \<le> of_int p / of_int q"
      using qpos by (simp add: field_simps)
    moreover have "(2::rat) ^ (bp - 1) / 2 ^ bq = 2 powi (int (bp - 1) - int bq)"
      by (simp add: power_int_diff)
    moreover have "int (bp - 1) - int bq = d - 1" using bp1 by (simp add: d_def)
    ultimately show ?thesis by (simp add: a)
  qed
  have b: "binade x = (if 2 powi d \<le> \<bar>x\<bar> then d else d - 1)"
    by (simp add: binade_def pq Let_def d_def bp_def bq_def bitlen_def)
  show "2 powi binade x \<le> \<bar>x\<bar>" using lo by (simp add: b)
  show "\<bar>x\<bar> < 2 powi (binade x + 1)" using up by (auto simp add: b not_le)
qed

lemma binade_eqI:
  assumes "2 powi e \<le> \<bar>x\<bar>" "\<bar>x\<bar> < 2 powi (e + 1)"
  shows "binade x = e"
proof -
  have "(0::rat) < 2 powi e" by simp
  then have "0 < \<bar>x\<bar>" using assms(1) by linarith
  then have nz: "x \<noteq> 0" by simp
  have "(2::rat) powi e < 2 powi (binade x + 1)"
    using assms(1) binade_bounds(2)[OF nz] by simp
  then have 1: "e < binade x + 1" by (rule powi_less_cancel)
  have "(2::rat) powi binade x < 2 powi (e + 1)"
    using assms(2) binade_bounds(1)[OF nz] by simp
  then have 2: "binade x < e + 1" by (rule powi_less_cancel)
  from 1 2 show ?thesis by simp
qed

lemma rne_eqI:
  assumes "\<bar>y - of_int n\<bar> < 1 / 2"
  shows "rne y = n"
proof -
  have b: "y - of_int n < 1 / 2" "- (1 / 2) < y - of_int n"
    using assms by linarith+
  show ?thesis
  proof (cases "of_int n \<le> y")
    case True
    have "\<lfloor>y\<rfloor> = n"
    proof (rule floor_unique)
      show "of_int n \<le> y" by (rule True)
      show "y < of_int n + 1" using b(1) by linarith
    qed
    then show ?thesis using b(1) by (simp add: rne_def Let_def)
  next
    case False
    have f: "\<lfloor>y\<rfloor> = n - 1"
    proof (rule floor_unique)
      show "of_int (n - 1) \<le> y" using b(2) by simp
      show "y < of_int (n - 1) + 1" using False by simp
    qed
    have "1 / 2 < y - of_int (n - 1)" using b(2) by simp
    then have "\<not> y - of_int (n - 1) < 1 / 2" by linarith
    then show ?thesis using \<open>1 / 2 < y - of_int (n - 1)\<close> by (simp add: rne_def Let_def f)
  qed
qed

lemma fl_eqI:
  assumes "2 powi e \<le> \<bar>x\<bar>" "\<bar>x\<bar> < 2 powi (e + 1)"
    "\<bar>x / 2 powi (e - 52) - of_int n\<bar> < 1 / 2"
  shows "fl x = of_int n * 2 powi (e - 52)"
proof -
  have "(0::rat) < 2 powi e" by simp
  then have "0 < \<bar>x\<bar>" using assms(1) by linarith
  then have nz: "x \<noteq> 0" by simp
  have b: "binade x = e" using assms(1,2) by (rule binade_eqI)
  show ?thesis using nz assms(3) by (simp add: fl_def b Let_def rne_eqI)
qed

lemma fl_0: "fl 0 = 0" by (simp add: fl_def)

lemma rne_tieI:
  assumes "y = of_int f + 1 / 2"
  shows "rne y = (if even f then f else f + 1)"
proof -
  have fy: "\<lfloor>y\<rfloor> = f"
    unfolding assms by (rule floor_unique) simp_all
  have "y - of_int \<lfloor>y\<rfloor> = 1 / 2"
    unfolding fy by (simp add: assms)
  then show ?thesis
    by (simp add: rne_def Let_def fy)
qed

lemma fl_tieI:
  assumes "2 powi e \<le> \<bar>x\<bar>" and "\<bar>x\<bar> < 2 powi (e + 1)"
    and "x / 2 powi (e - 52) = of_int f + 1 / 2"
  shows "fl x = of_int (if even f then f else f + 1) * 2 powi (e - 52)"
proof -
  have b: "binade x = e" using assms(1,2) by (rule binade_eqI)
  have nz: "x \<noteq> 0"
  proof
    assume "x = 0"
    then have "(2::rat) powi e \<le> 0" using assms(1) by simp
    moreover have "(0::rat) < 2 powi e" by simp
    ultimately show False by linarith
  qed
  have r: "rne (x / 2 powi (e - 52)) = (if even f then f else f + 1)"
    using assms(3) by (rule rne_tieI)
  show ?thesis
    using nz by (simp only: fl_def b Let_def r if_False)
qed


text \<open>The rounding moves a number by at most half a unit in the last place.\<close>

lemma rne_error: "\<bar>of_int (rne y) - y\<bar> \<le> 1 / 2"
proof -
  have "of_int \<lfloor>y\<rfloor> \<le> y" "y < of_int \<lfloor>y\<rfloor> + 1" by linarith+
  then show ?thesis by (auto simp add: rne_def Let_def)
qed

lemma fl_error:
  assumes "x \<noteq> 0"
  shows "\<bar>fl x - x\<bar> \<le> 2 powi (binade x - 53)"
proof -
  define u :: rat where "u = 2 powi (binade x - 52)"
  have up: "0 < u" by (simp add: u_def)
  have "fl x - x = (of_int (rne (x / u)) - x / u) * u"
    using up assms by (simp add: fl_def u_def Let_def left_diff_distrib)
  then have "\<bar>fl x - x\<bar> = \<bar>of_int (rne (x / u)) - x / u\<bar> * u"
    using up by (simp add: abs_mult)
  also have "\<dots> \<le> (1 / 2) * u"
    using rne_error[of "x / u"] up by (intro mult_right_mono) simp_all
  also have "(1 / 2) * u = 2 powi (binade x - 53)"
  proof -
    have "(2::rat) powi (binade x - 52) = 2 powi (binade x - 53 + 1)" by simp
    also have "\<dots> = 2 powi (binade x - 53) * 2"
      by (rule power_int_add_1) simp
    finally show ?thesis by (simp add: u_def)
  qed
  finally show ?thesis .
qed

lemma dmul_0: "dmul 0 b = 0"
  by (simp add: dmul_def fl_0)

lemma ddiv_0: "ddiv 0 b = 0"
  by (simp add: ddiv_def fl_0)

section \<open>The arithmetic at the inputs of the examples\<close>

text \<open>
  The value of each operation that the examples below need, each by \<open>fl_eqI\<close> or
  \<open>fl_tieI\<close> at the exponent and the mantissa of its result.
\<close>

lemma fl_1: "fl (1 / 10) = 3602879701896397 / 36028797018963968"
  using fl_eqI[of "- 4" "1 / 10" "7205759403792794"] by simp

lemma fl_2: "fl (1 / 1000) = 1152921504606847 / 1152921504606846976"
  using fl_eqI[of "- 10" "1 / 1000" "4611686018427388"] by simp

lemma fl_3: "fl 100 = 100"
  using fl_eqI[of "6" "100" "7036874417766400"] by simp

lemma fl_4: "fl 10 = 10"
  using fl_eqI[of "3" "10" "5629499534213120"] by simp

lemma fl_5: "fl 1000 = 1000"
  using fl_eqI[of "9" "1000" "8796093022208000"] by simp

lemma dmul_6: "dmul 100 10 = 1000"
  by (simp add: dmul_def fl_3 fl_4 fl_5)

lemma fl_7: "fl 5 = 5"
  using fl_eqI[of "2" "5" "5629499534213120"] by simp

lemma fl_8: "fl 200 = 200"
  using fl_eqI[of "7" "200" "7036874417766400"] by simp

lemma fl_9: "fl (- 195) = - 195"
  using fl_eqI[of "7" "- 195" "- 6860952557322240"] by simp

lemma dsub_10: "dsub 5 200 = - 195"
  by (simp add: dsub_def fl_7 fl_8 fl_9)

lemma fl_11: "fl (- (39 / 40)) = - (8782019273372467 / 9007199254740992)"
  using fl_eqI[of "- 1" "- (39 / 40)" "- 8782019273372467"] by simp

lemma ddiv_12: "ddiv (- 195) 200 = - (8782019273372467 / 9007199254740992)"
  by (simp add: ddiv_def fl_11 fl_8 fl_9)

lemma fl_13: "fl (- (8782019273372467 / 9007199254740992)) = - (8782019273372467 / 9007199254740992)"
  using fl_eqI[of "- 1" "- (8782019273372467 / 9007199254740992)" "- 8782019273372467"] by simp

lemma fl_14: "fl (- (219550481834311675 / 2251799813685248)) = - (195 / 2)"
  using fl_eqI[of "6" "- (219550481834311675 / 2251799813685248)" "- 6860952557322240"] by simp

lemma dmul_15: "dmul (- (8782019273372467 / 9007199254740992)) 100 = - (195 / 2)"
  by (simp add: dmul_def fl_13 fl_14 fl_3)

lemma fl_16: "fl (- (195 / 2)) = - (195 / 2)"
  using fl_eqI[of "6" "- (195 / 2)" "- 6860952557322240"] by simp

lemma fl_17: "fl (- 975) = - 975"
  using fl_eqI[of "9" "- 975" "- 8576190696652800"] by simp

lemma dmul_18: "dmul (- (195 / 2)) 10 = - 975"
  by (simp add: dmul_def fl_16 fl_17 fl_4)

lemma fl_19: "fl 5000 = 5000"
  using fl_eqI[of "12" "5000" "5497558138880000"] by simp

lemma fl_20: "fl 6000 = 6000"
  using fl_eqI[of "12" "6000" "6597069766656000"] by simp

lemma fl_21: "fl (- 1000) = - 1000"
  using fl_eqI[of "9" "- 1000" "- 8796093022208000"] by simp

lemma dsub_22: "dsub 5000 6000 = - 1000"
  by (simp add: dsub_def fl_19 fl_20 fl_21)

lemma fl_23: "fl (- (1 / 6)) = - (6004799503160661 / 36028797018963968)"
  using fl_eqI[of "- 3" "- (1 / 6)" "- 6004799503160661"] by simp

lemma ddiv_24: "ddiv (- 1000) 6000 = - (6004799503160661 / 36028797018963968)"
  by (simp add: ddiv_def fl_20 fl_21 fl_23)

lemma fl_25: "fl (- (6004799503160661 / 36028797018963968)) = - (6004799503160661 / 36028797018963968)"
  using fl_eqI[of "- 3" "- (6004799503160661 / 36028797018963968)" "- 6004799503160661"] by simp

lemma fl_26: "fl (- (150119987579016525 / 9007199254740992)) = - (2345624805922133 / 140737488355328)"
  using fl_eqI[of "4" "- (150119987579016525 / 9007199254740992)" "- 4691249611844266"] by simp

lemma dmul_27: "dmul (- (6004799503160661 / 36028797018963968)) 100 = - (2345624805922133 / 140737488355328)"
  by (simp add: dmul_def fl_25 fl_26 fl_3)

lemma fl_28: "fl (- (2345624805922133 / 140737488355328)) = - (2345624805922133 / 140737488355328)"
  using fl_eqI[of "4" "- (2345624805922133 / 140737488355328)" "- 4691249611844266"] by simp

lemma fl_29: "fl (- (11728124029610665 / 70368744177664)) = - (1466015503701333 / 8796093022208)"
  using fl_tieI[of "7" "- (11728124029610665 / 70368744177664)" "- 5864062014805333"] by simp

lemma dmul_30: "dmul (- (2345624805922133 / 140737488355328)) 10 = - (1466015503701333 / 8796093022208)"
  by (simp add: dmul_def fl_28 fl_29 fl_4)

lemma fl_31: "fl 6 = 6"
  using fl_eqI[of "2" "6" "6755399441055744"] by simp

lemma fl_32: "fl 8 = 8"
  using fl_eqI[of "3" "8" "4503599627370496"] by simp

lemma fl_33: "fl (- 2) = - 2"
  using fl_eqI[of "1" "- 2" "- 4503599627370496"] by simp

lemma dsub_34: "dsub 6 8 = - 2"
  by (simp add: dsub_def fl_31 fl_32 fl_33)

lemma fl_35: "fl (- 20) = - 20"
  using fl_eqI[of "4" "- 20" "- 5629499534213120"] by simp

lemma dmul_36: "dmul (- 2) 10 = - 20"
  by (simp add: dmul_def fl_33 fl_35 fl_4)

lemma fl_37: "fl 9 = 9"
  using fl_eqI[of "3" "9" "5066549580791808"] by simp

lemma fl_38: "fl 4 = 4"
  using fl_eqI[of "2" "4" "4503599627370496"] by simp

lemma dsub_39: "dsub 9 4 = 5"
  by (simp add: dsub_def fl_37 fl_38 fl_7)

lemma fl_40: "fl (- 5) = - 5"
  using fl_eqI[of "2" "- 5" "- 5629499534213120"] by simp

lemma dsub_41: "dsub 5 10 = - 5"
  by (simp add: dsub_def fl_4 fl_40 fl_7)

lemma fl_42: "fl (- (1 / 2)) = - (1 / 2)"
  using fl_eqI[of "- 1" "- (1 / 2)" "- 4503599627370496"] by simp

lemma ddiv_43: "ddiv (- 5) 10 = - (1 / 2)"
  by (simp add: ddiv_def fl_4 fl_40 fl_42)

lemma fl_44: "fl (- 50) = - 50"
  using fl_eqI[of "5" "- 50" "- 7036874417766400"] by simp

lemma dmul_45: "dmul (- (1 / 2)) 100 = - 50"
  by (simp add: dmul_def fl_3 fl_42 fl_44)

lemma fl_46: "fl (20 / 7) = 6433713753386423 / 2251799813685248"
  using fl_eqI[of "1" "20 / 7" "6433713753386423"] by simp

lemma fl_47: "fl (5 / 3) = 7505999378950827 / 4503599627370496"
  using fl_eqI[of "0" "5 / 3" "7505999378950827"] by simp

lemma fl_48: "fl (5361428127822019 / 4503599627370496) = 5361428127822019 / 4503599627370496"
  using fl_eqI[of "0" "5361428127822019 / 4503599627370496" "5361428127822019"] by simp

lemma dsub_49: "dsub (20 / 7) (5 / 3) = 5361428127822019 / 4503599627370496"
  by (simp add: dsub_def fl_46 fl_47 fl_48)

lemma fl_50: "fl (5361428127822019 / 7505999378950827) = 6433713753386423 / 9007199254740992"
  using fl_eqI[of "- 1" "5361428127822019 / 7505999378950827" "6433713753386423"] by simp

lemma ddiv_51: "ddiv (5361428127822019 / 4503599627370496) (5 / 3) = 6433713753386423 / 9007199254740992"
  by (simp add: ddiv_def fl_47 fl_48 fl_50)

lemma fl_52: "fl (6433713753386423 / 9007199254740992) = 6433713753386423 / 9007199254740992"
  using fl_eqI[of "- 1" "6433713753386423 / 9007199254740992" "6433713753386423"] by simp

lemma fl_53: "fl (160842843834660575 / 2251799813685248) = 5026338869833143 / 70368744177664"
  using fl_eqI[of "6" "160842843834660575 / 2251799813685248" "5026338869833143"] by simp

lemma dmul_54: "dmul (6433713753386423 / 9007199254740992) 100 = 5026338869833143 / 70368744177664"
  by (simp add: dmul_def fl_3 fl_52 fl_53)

lemma dmul_55: "dmul (- 5) 10 = - 50"
  by (simp add: dmul_def fl_4 fl_40 fl_44)

lemma fl_56: "fl 50 = 50"
  using fl_eqI[of "5" "50" "7036874417766400"] by simp

lemma dsub_57: "dsub 50 100 = - 50"
  by (simp add: dsub_def fl_3 fl_44 fl_56)

lemma ddiv_58: "ddiv (- 50) 100 = - (1 / 2)"
  by (simp add: ddiv_def fl_3 fl_42 fl_44)

lemma fl_59: "fl (- 500) = - 500"
  using fl_eqI[of "8" "- 500" "- 8796093022208000"] by simp

lemma dmul_60: "dmul (- 50) 10 = - 500"
  by (simp add: dmul_def fl_4 fl_44 fl_59)

lemma fl_61: "fl 750 = 750"
  using fl_eqI[of "9" "750" "6597069766656000"] by simp

lemma fl_62: "fl (- 250) = - 250"
  using fl_eqI[of "7" "- 250" "- 8796093022208000"] by simp

lemma dsub_63: "dsub 750 1000 = - 250"
  by (simp add: dsub_def fl_5 fl_61 fl_62)

lemma fl_64: "fl (- (1 / 4)) = - (1 / 4)"
  using fl_eqI[of "- 2" "- (1 / 4)" "- 4503599627370496"] by simp

lemma ddiv_65: "ddiv (- 250) 1000 = - (1 / 4)"
  by (simp add: ddiv_def fl_5 fl_62 fl_64)

lemma fl_66: "fl (- 25) = - 25"
  using fl_eqI[of "4" "- 25" "- 7036874417766400"] by simp

lemma dmul_67: "dmul (- (1 / 4)) 100 = - 25"
  by (simp add: dmul_def fl_3 fl_64 fl_66)

lemma dmul_68: "dmul (- 25) 10 = - 250"
  by (simp add: dmul_def fl_4 fl_62 fl_66)

lemma fl_69: "fl (1 / 15) = 4803839602528529 / 72057594037927936"
  using fl_eqI[of "- 4" "1 / 15" "4803839602528529"] by simp

lemma fl_70: "fl (- (2401919801264265 / 72057594037927936)) = - (2401919801264265 / 72057594037927936)"
  using fl_eqI[of "- 5" "- (2401919801264265 / 72057594037927936)" "- 4803839602528530"] by simp

lemma dsub_71: "dsub (1 / 15) (1 / 10) = - (2401919801264265 / 72057594037927936)"
  by (simp add: dsub_def fl_1 fl_69 fl_70)

lemma fl_72: "fl (- (2401919801264265 / 7205759403792794)) = - (3002399751580331 / 9007199254740992)"
  using fl_eqI[of "- 2" "- (2401919801264265 / 7205759403792794)" "- 6004799503160662"] by simp

lemma ddiv_73: "ddiv (- (2401919801264265 / 72057594037927936)) (1 / 10) = - (3002399751580331 / 9007199254740992)"
  by (simp add: ddiv_def fl_1 fl_70 fl_72)

lemma fl_74: "fl (- (3002399751580331 / 9007199254740992)) = - (3002399751580331 / 9007199254740992)"
  using fl_eqI[of "- 2" "- (3002399751580331 / 9007199254740992)" "- 6004799503160662"] by simp

lemma fl_75: "fl (- (75059993789508275 / 2251799813685248)) = - (4691249611844267 / 140737488355328)"
  using fl_eqI[of "5" "- (75059993789508275 / 2251799813685248)" "- 4691249611844267"] by simp

lemma dmul_76: "dmul (- (3002399751580331 / 9007199254740992)) 100 = - (4691249611844267 / 140737488355328)"
  by (simp add: dmul_def fl_3 fl_74 fl_75)

lemma fl_77: "fl 80 = 80"
  using fl_eqI[of "6" "80" "5629499534213120"] by simp

lemma dsub_78: "dsub 80 100 = - 20"
  by (simp add: dsub_def fl_3 fl_35 fl_77)

lemma fl_79: "fl (- (1 / 5)) = - (3602879701896397 / 18014398509481984)"
  using fl_eqI[of "- 3" "- (1 / 5)" "- 7205759403792794"] by simp

lemma ddiv_80: "ddiv (- 20) 100 = - (3602879701896397 / 18014398509481984)"
  by (simp add: ddiv_def fl_3 fl_35 fl_79)

lemma fl_81: "fl (- (3602879701896397 / 18014398509481984)) = - (3602879701896397 / 18014398509481984)"
  using fl_eqI[of "- 3" "- (3602879701896397 / 18014398509481984)" "- 7205759403792794"] by simp

lemma fl_82: "fl (- (90071992547409925 / 4503599627370496)) = - 20"
  using fl_eqI[of "4" "- (90071992547409925 / 4503599627370496)" "- 5629499534213120"] by simp

lemma dmul_83: "dmul (- (3602879701896397 / 18014398509481984)) 100 = - 20"
  by (simp add: dmul_def fl_3 fl_81 fl_82)

lemma fl_84: "fl (- 200) = - 200"
  using fl_eqI[of "7" "- 200" "- 7036874417766400"] by simp

lemma dmul_85: "dmul (- 20) 10 = - 200"
  by (simp add: dmul_def fl_35 fl_4 fl_84)

lemma fl_86: "fl 500 = 500"
  using fl_eqI[of "8" "500" "8796093022208000"] by simp

lemma dsub_87: "dsub 500 500 = 0"
  by (simp add: dsub_def fl_0 fl_86)

lemma ddiv_88: "ddiv 0 500 = 0"
  by (simp add: ddiv_def fl_0 fl_86)

lemma dmul_89: "dmul 0 100 = 0"
  by (simp add: dmul_def fl_0 fl_3)

lemma dmul_90: "dmul 0 10 = 0"
  by (simp add: dmul_def fl_0 fl_4)

lemma fl_91: "fl (4 / 25) = 5764607523034235 / 36028797018963968"
  using fl_eqI[of "- 3" "4 / 25" "5764607523034235"] by simp

lemma fl_92: "fl (1 / 5) = 3602879701896397 / 18014398509481984"
  using fl_eqI[of "- 3" "1 / 5" "7205759403792794"] by simp

lemma fl_93: "fl (- (1441151880758559 / 36028797018963968)) = - (1441151880758559 / 36028797018963968)"
  using fl_eqI[of "- 5" "- (1441151880758559 / 36028797018963968)" "- 5764607523034236"] by simp

lemma dsub_94: "dsub (4 / 25) (1 / 5) = - (1441151880758559 / 36028797018963968)"
  by (simp add: dsub_def fl_91 fl_92 fl_93)

lemma fl_95: "fl (- (1441151880758559 / 7205759403792794)) = - (7205759403792795 / 36028797018963968)"
  using fl_eqI[of "- 3" "- (1441151880758559 / 7205759403792794)" "- 7205759403792795"] by simp

lemma ddiv_96: "ddiv (- (1441151880758559 / 36028797018963968)) (1 / 5) = - (7205759403792795 / 36028797018963968)"
  by (simp add: ddiv_def fl_92 fl_93 fl_95)

lemma fl_97: "fl (- (7205759403792795 / 36028797018963968)) = - (7205759403792795 / 36028797018963968)"
  using fl_eqI[of "- 3" "- (7205759403792795 / 36028797018963968)" "- 7205759403792795"] by simp

lemma fl_98: "fl (- (180143985094819875 / 9007199254740992)) = - (5629499534213121 / 281474976710656)"
  using fl_eqI[of "4" "- (180143985094819875 / 9007199254740992)" "- 5629499534213121"] by simp

lemma dmul_99: "dmul (- (7205759403792795 / 36028797018963968)) 100 = - (5629499534213121 / 281474976710656)"
  by (simp add: dmul_def fl_3 fl_97 fl_98)

lemma fl_100: "fl (- (5629499534213121 / 281474976710656)) = - (5629499534213121 / 281474976710656)"
  using fl_eqI[of "4" "- (5629499534213121 / 281474976710656)" "- 5629499534213121"] by simp

lemma fl_101: "fl (- (28147497671065605 / 140737488355328)) = - (7036874417766401 / 35184372088832)"
  using fl_eqI[of "7" "- (28147497671065605 / 140737488355328)" "- 7036874417766401"] by simp

lemma dmul_102: "dmul (- (5629499534213121 / 281474976710656)) 10 = - (7036874417766401 / 35184372088832)"
  by (simp add: dmul_def fl_100 fl_101 fl_4)

lemma dsub_103: "dsub 5 5 = 0"
  by (simp add: dsub_def fl_0 fl_7)

lemma dsub_104: "dsub 100 100 = 0"
  by (simp add: dsub_def fl_0 fl_3)

lemma ddiv_105: "ddiv 0 100 = 0"
  by (simp add: ddiv_def fl_0 fl_3)

lemma dsub_106: "dsub (1 / 5) (1 / 5) = 0"
  by (simp add: dsub_def fl_0 fl_92)

lemma ddiv_107: "ddiv 0 (1 / 5) = 0"
  by (simp add: ddiv_def fl_0 fl_92)

lemma fl_108: "fl (7 / 5) = 3152519739159347 / 2251799813685248"
  using fl_eqI[of "0" "7 / 5" "6305039478318694"] by simp

lemma fl_109: "fl (22 / 5) = 2476979795053773 / 562949953421312"
  using fl_eqI[of "2" "22 / 5" "4953959590107546"] by simp

lemma fl_110: "fl (- (6755399441055745 / 2251799813685248)) = - (6755399441055745 / 2251799813685248)"
  using fl_eqI[of "1" "- (6755399441055745 / 2251799813685248)" "- 6755399441055745"] by simp

lemma dsub_111: "dsub (7 / 5) (22 / 5) = - (6755399441055745 / 2251799813685248)"
  by (simp add: dsub_def fl_108 fl_109 fl_110)

lemma fl_112: "fl (6 / 5) = 5404319552844595 / 4503599627370496"
  using fl_eqI[of "0" "6 / 5" "5404319552844595"] by simp

lemma fl_113: "fl (21 / 5) = 4728779608739021 / 1125899906842624"
  using fl_eqI[of "2" "21 / 5" "4728779608739021"] by simp

lemma fl_114: "fl (- (13510798882111489 / 4503599627370496)) = - 3"
  using fl_tieI[of "1" "- (13510798882111489 / 4503599627370496)" "- 6755399441055745"] by simp

lemma dsub_115: "dsub (6 / 5) (21 / 5) = - 3"
  by (simp add: dsub_def fl_112 fl_113 fl_114)

lemma fl_116: "fl (51 / 1000) = 7349874591868649 / 144115188075855872"
  using fl_eqI[of "- 5" "51 / 1000" "7349874591868649"] by simp

lemma fl_117: "fl (3 / 50) = 1080863910568919 / 18014398509481984"
  using fl_eqI[of "- 5" "3 / 50" "8646911284551352"] by simp

lemma fl_118: "fl (- (1297036692682703 / 144115188075855872)) = - (1297036692682703 / 144115188075855872)"
  using fl_eqI[of "- 7" "- (1297036692682703 / 144115188075855872)" "- 5188146770730812"] by simp

lemma dsub_119: "dsub (51 / 1000) (3 / 50) = - (1297036692682703 / 144115188075855872)"
  by (simp add: dsub_def fl_116 fl_117 fl_118)

lemma fl_120: "fl (- (1297036692682703 / 8646911284551352)) = - (1351079888211149 / 9007199254740992)"
  using fl_eqI[of "- 3" "- (1297036692682703 / 8646911284551352)" "- 5404319552844596"] by simp

lemma ddiv_121: "ddiv (- (1297036692682703 / 144115188075855872)) (3 / 50) = - (1351079888211149 / 9007199254740992)"
  by (simp add: ddiv_def fl_117 fl_118 fl_120)

lemma fl_122: "fl (- (1351079888211149 / 9007199254740992)) = - (1351079888211149 / 9007199254740992)"
  using fl_eqI[of "- 3" "- (1351079888211149 / 9007199254740992)" "- 5404319552844596"] by simp

lemma fl_123: "fl (- (33776997205278725 / 2251799813685248)) = - (8444249301319681 / 562949953421312)"
  using fl_eqI[of "3" "- (33776997205278725 / 2251799813685248)" "- 8444249301319681"] by simp

lemma dmul_124: "dmul (- (1351079888211149 / 9007199254740992)) 100 = - (8444249301319681 / 562949953421312)"
  by (simp add: dmul_def fl_122 fl_123 fl_3)

lemma fl_125: "fl 31 = 31"
  using fl_eqI[of "4" "31" "8725724278030336"] by simp

lemma fl_126: "fl (- 49) = - 49"
  using fl_eqI[of "5" "- 49" "- 6896136929411072"] by simp

lemma dsub_127: "dsub 31 80 = - 49"
  by (simp add: dsub_def fl_125 fl_126 fl_77)

lemma fl_128: "fl (- (49 / 80)) = - (2758454771764429 / 4503599627370496)"
  using fl_eqI[of "- 1" "- (49 / 80)" "- 5516909543528858"] by simp

lemma ddiv_129: "ddiv (- 49) 80 = - (2758454771764429 / 4503599627370496)"
  by (simp add: ddiv_def fl_126 fl_128 fl_77)

lemma fl_130: "fl (- (2758454771764429 / 4503599627370496)) = - (2758454771764429 / 4503599627370496)"
  using fl_eqI[of "- 1" "- (2758454771764429 / 4503599627370496)" "- 5516909543528858"] by simp

lemma fl_131: "fl (- (68961369294110725 / 1125899906842624)) = - (8620171161763841 / 140737488355328)"
  using fl_eqI[of "5" "- (68961369294110725 / 1125899906842624)" "- 8620171161763841"] by simp

lemma dmul_132: "dmul (- (2758454771764429 / 4503599627370496)) 100 = - (8620171161763841 / 140737488355328)"
  by (simp add: dmul_def fl_130 fl_131 fl_3)

lemma fl_133: "fl (- (8620171161763841 / 140737488355328)) = - (8620171161763841 / 140737488355328)"
  using fl_eqI[of "5" "- (8620171161763841 / 140737488355328)" "- 8620171161763841"] by simp

lemma fl_134: "fl (- (43100855808819205 / 70368744177664)) = - (5387606976102401 / 8796093022208)"
  using fl_eqI[of "9" "- (43100855808819205 / 70368744177664)" "- 5387606976102401"] by simp

lemma dmul_135: "dmul (- (8620171161763841 / 140737488355328)) 10 = - (5387606976102401 / 8796093022208)"
  by (simp add: dmul_def fl_133 fl_134 fl_4)

lemma fl_136: "fl 150 = 150"
  using fl_eqI[of "7" "150" "5277655813324800"] by simp

lemma dsub_137: "dsub 150 100 = 50"
  by (simp add: dsub_def fl_136 fl_3 fl_56)

lemma fl_138: "fl (1 / 2) = 1 / 2"
  using fl_eqI[of "- 1" "1 / 2" "4503599627370496"] by simp

lemma ddiv_139: "ddiv 50 100 = 1 / 2"
  by (simp add: ddiv_def fl_138 fl_3 fl_56)

lemma dmul_140: "dmul (1 / 2) 100 = 50"
  by (simp add: dmul_def fl_138 fl_3 fl_56)

lemma fl_141: "fl 2 = 2"
  using fl_eqI[of "1" "2" "4503599627370496"] by simp

lemma fl_142: "fl 3 = 3"
  using fl_eqI[of "1" "3" "6755399441055744"] by simp

lemma fl_143: "fl (2 / 3) = 6004799503160661 / 9007199254740992"
  using fl_eqI[of "- 1" "2 / 3" "6004799503160661"] by simp

lemma ddiv_144: "ddiv 2 3 = 6004799503160661 / 9007199254740992"
  by (simp add: ddiv_def fl_141 fl_142 fl_143)

lemma fl_145: "fl (6004799503160661 / 9007199254740992) = 6004799503160661 / 9007199254740992"
  using fl_eqI[of "- 1" "6004799503160661 / 9007199254740992" "6004799503160661"] by simp

lemma fl_146: "fl (150119987579016525 / 2251799813685248) = 2345624805922133 / 35184372088832"
  using fl_eqI[of "6" "150119987579016525 / 2251799813685248" "4691249611844266"] by simp

lemma dmul_147: "dmul (6004799503160661 / 9007199254740992) 100 = 2345624805922133 / 35184372088832"
  by (simp add: dmul_def fl_145 fl_146 fl_3)

lemma dadd_148: "dadd 0 3 = 3"
  by (simp add: dadd_def fl_0 fl_142)

lemma fl_149: "fl 7 = 7"
  using fl_eqI[of "2" "7" "7881299347898368"] by simp

lemma dadd_150: "dadd 3 4 = 7"
  by (simp add: dadd_def fl_142 fl_149 fl_38)

lemma dadd_151: "dadd 7 0 = 7"
  by (simp add: dadd_def fl_0 fl_149)

lemma fl_152: "fl (7 / 3) = 5254199565265579 / 2251799813685248"
  using fl_eqI[of "1" "7 / 3" "5254199565265579"] by simp

lemma ddiv_153: "ddiv 7 3 = 5254199565265579 / 2251799813685248"
  by (simp add: ddiv_def fl_142 fl_149 fl_152)

lemma fl_154: "fl (5254199565265579 / 2251799813685248) = 5254199565265579 / 2251799813685248"
  using fl_eqI[of "1" "5254199565265579 / 2251799813685248" "5254199565265579"] by simp

lemma fl_155: "fl (26270997826327895 / 1125899906842624) = 3283874728290987 / 140737488355328"
  using fl_eqI[of "4" "26270997826327895 / 1125899906842624" "6567749456581974"] by simp

lemma dmul_156: "dmul (5254199565265579 / 2251799813685248) 10 = 3283874728290987 / 140737488355328"
  by (simp add: dmul_def fl_154 fl_155 fl_4)

lemma fl_157: "fl 23 = 23"
  using fl_eqI[of "4" "23" "6473924464345088"] by simp

lemma fl_158: "fl 40 = 40"
  using fl_eqI[of "5" "40" "5629499534213120"] by simp

lemma fl_159: "fl (23 / 40) = 2589569785738035 / 4503599627370496"
  using fl_eqI[of "- 1" "23 / 40" "5179139571476070"] by simp

lemma ddiv_160: "ddiv 23 40 = 2589569785738035 / 4503599627370496"
  by (simp add: ddiv_def fl_157 fl_158 fl_159)

lemma fl_161: "fl (2589569785738035 / 4503599627370496) = 2589569785738035 / 4503599627370496"
  using fl_eqI[of "- 1" "2589569785738035 / 4503599627370496" "5179139571476070"] by simp

lemma fl_162: "fl (64739244643450875 / 1125899906842624) = 8092405580431359 / 140737488355328"
  using fl_eqI[of "5" "64739244643450875 / 1125899906842624" "8092405580431359"] by simp

lemma dmul_163: "dmul (2589569785738035 / 4503599627370496) 100 = 8092405580431359 / 140737488355328"
  by (simp add: dmul_def fl_161 fl_162 fl_3)

lemma fl_164: "fl (3602879701896397 / 36028797018963968) = 3602879701896397 / 36028797018963968"
  using fl_eqI[of "- 4" "3602879701896397 / 36028797018963968" "7205759403792794"] by simp

lemma dadd_165: "dadd 0 (1 / 10) = 3602879701896397 / 36028797018963968"
  by (simp add: dadd_def fl_0 fl_1 fl_164)

lemma fl_166: "fl (23 / 5) = 2589569785738035 / 562949953421312"
  using fl_eqI[of "2" "23 / 5" "5179139571476070"] by simp

lemma fl_167: "fl (169335345989130637 / 36028797018963968) = 1322932390540083 / 281474976710656"
  using fl_eqI[of "2" "169335345989130637 / 36028797018963968" "5291729562160332"] by simp

lemma dadd_168: "dadd (3602879701896397 / 36028797018963968) (23 / 5) = 1322932390540083 / 281474976710656"
  by (simp add: dadd_def fl_164 fl_166 fl_167)

lemma fl_169: "fl (1322932390540083 / 281474976710656) = 1322932390540083 / 281474976710656"
  using fl_eqI[of "2" "1322932390540083 / 281474976710656" "5291729562160332"] by simp

lemma fl_170: "fl (1322932390540083 / 562949953421312) = 1322932390540083 / 562949953421312"
  using fl_eqI[of "1" "1322932390540083 / 562949953421312" "5291729562160332"] by simp

lemma ddiv_171: "ddiv (1322932390540083 / 281474976710656) 2 = 1322932390540083 / 562949953421312"
  by (simp add: ddiv_def fl_141 fl_169 fl_170)

lemma fl_172: "fl (6614661952700415 / 281474976710656) = 6614661952700415 / 281474976710656"
  using fl_eqI[of "4" "6614661952700415 / 281474976710656" "6614661952700415"] by simp

lemma dmul_173: "dmul (1322932390540083 / 562949953421312) 10 = 6614661952700415 / 281474976710656"
  by (simp add: dmul_def fl_170 fl_172 fl_4)

lemma fl_174: "fl 1 = 1"
  using fl_eqI[of "0" "1" "4503599627370496"] by simp

lemma ddiv_175: "ddiv 2 2 = 1"
  by (simp add: ddiv_def fl_141 fl_174)

lemma dmul_176: "dmul 1 100 = 100"
  by (simp add: dmul_def fl_174 fl_3)

lemmas double_evals =
  dmul_6 dsub_10 ddiv_12 dmul_15 dmul_18 dsub_22 ddiv_24 dmul_27 dmul_30 dsub_34 dmul_36
  dsub_39 dsub_41 ddiv_43 dmul_45 dsub_49 ddiv_51 dmul_54 dmul_55 dsub_57 ddiv_58 dmul_60
  dsub_63 ddiv_65 dmul_67 dmul_68 dsub_71 ddiv_73 dmul_76 dsub_78 ddiv_80 dmul_83 dmul_85
  dsub_87 ddiv_88 dmul_89 dmul_90 dsub_94 ddiv_96 dmul_99 dmul_102 dsub_103 dsub_104
  ddiv_105 dsub_106 ddiv_107 dsub_111 dsub_115 dsub_119 ddiv_121 dmul_124 dsub_127
  ddiv_129 dmul_132 dmul_135 dsub_137 ddiv_139 dmul_140 ddiv_144 dmul_147 dadd_148
  dadd_150 dadd_151 ddiv_153 dmul_156 ddiv_160 dmul_163 dadd_165 dadd_168 ddiv_171
  dmul_173 ddiv_175 dmul_176 fl_1 fl_2

section \<open>Basic facts\<close>


lemma Math_round_eq_round: "Math_round x = round x"
  by (simp add: Math_round_def round_def)

lemma floor_rat_numeral: "\<lfloor>numeral a / numeral b :: rat\<rfloor> = numeral a div numeral b"
  by (metis floor_divide_of_int_eq of_int_numeral)

lemma floor_rat_minus_numeral:
  "\<lfloor>- (numeral a / numeral b) :: rat\<rfloor> = - numeral a div numeral b"
  by (metis divide_minus_left floor_divide_of_int_eq of_int_neg_numeral of_int_numeral)

lemma floor_rat_half: "\<lfloor>1 / 2 :: rat\<rfloor> = 0"
  by (rule floor_unique) simp_all

lemma round1_100: "round1 100 = 100"
  by (simp add: round1_def Math_round_def double_evals floor_rat_numeral)

lemma round1_0: "round1 0 = 0"
  by (simp add: round1_def Math_round_def dmul_0 floor_rat_half)


lemma diagnoseDecay_Some:
  assumes "previous pg = Some prev"
  shows "\<exists>d. diagnoseDecay pg w = Inr d \<and>
     score d = revivalScore (current pg) \<and>
     decayClass d = fst (taxonomy (current pg) (standardDeltas (current pg) prev) (isCliff (current pg) (recent pg))) \<and>
     severity d = map_of severityMap (decayClass d) \<and>
     changes d = deltas_rounded (standardDeltas (current pg) prev) \<and>
     signals d = fst (snd (taxonomy (current pg) (standardDeltas (current pg) prev) (isCliff (current pg) (recent pg)))) \<and>
     symptoms d = snd (snd (taxonomy (current pg) (standardDeltas (current pg) prev) (isCliff (current pg) (recent pg)))) \<and>
     recommendation d = getRevivalRecommendations (decayClass d) (signals d) (score d)"
  using assms by (simp add: diagnoseDecay_def Let_def deltas_rounded_def split: prod.splits)

lemma diagnoseDecay_None: "previous pg = None \<Longrightarrow> diagnoseDecay pg w = Inl TypeError"
  by (simp add: diagnoseDecay_def)

lemma calculateDecayMetrics_Some:
  assumes "prev_opt = Some prev"
  shows "\<exists>m. calculateDecayMetrics cur prev_opt = Inr m \<and>
     dm_score m = round1 (weightedScore (standardDeltas cur prev)) \<and>
     dm_severity m = severityOfScore (weightedScore (standardDeltas cur prev)) \<and>
     dm_changes m = deltas_rounded (standardDeltas cur prev) \<and>
     dm_signals m = decaySignals (standardDeltas cur prev) \<and>
     dm_recommendation m = getRecommendation (dm_severity m) (dm_signals m)"
  using assms by (simp add: calculateDecayMetrics_def Let_def deltas_rounded_def)

lemma pct_zero_pos: "c > 0 \<Longrightarrow> calculatePercentChange c 0 = 100"
  by (simp add: calculatePercentChange_def)

lemma pct_zero_zero: "calculatePercentChange 0 0 = 0"
  by (simp add: calculatePercentChange_def)

lemma rounded_zero_previous:
  "c > 0 \<Longrightarrow> round1 (calculatePercentChange c 0) = 100"
  "round1 (calculatePercentChange 0 0) = 0"
  by (simp_all add: pct_zero_pos pct_zero_zero round1_100 round1_0)

lemma taxonomy_class:
  "fst (taxonomy cur chg cliff) =
     first_match_spec (classification_rules_spec cur (chg_clicks chg) (chg_position chg) cliff) Decaying"
  by (simp add: taxonomy_def classification_rules_spec_def)

lemma severityMap_total: "map_of severityMap c = Some (severity_table_spec c)"
  by (cases c) (simp_all add: severityMap_def)

lemma diagnoseDecay_weights: "diagnoseDecay pg w = diagnoseDecay pg w'"
  by (simp add: diagnoseDecay_def)

lemmas eval_defs =
  Let_def standardDeltas_def calculatePercentChange_def revivalScore_def potentialClicks_def
  idealCtr_def Math_round_def round1_def isCliff_def velocityChange_def taxonomy_def
  severityMap_def deltas_rounded_def floor_rat_numeral floor_rat_minus_numeral floor_rat_half
  double_evals dmul_0 ddiv_0 fl_0

lemma example_zombie_eval:
  assumes "scale = 1 \<or> scale = 1 / 100"
  shows "\<exists>d. diagnoseDecay (example_zombie scale) w = Inr d \<and>
       chg_impressions (changes d) = - (167 / 10) \<and> chg_clicks (changes d) = - (975 / 10) \<and>
       chg_position (changes d) = - 2 \<and> decayClass d = Zombie \<and>
       severity d = Some Warning \<and> score d = 995"
proof -
  have pv: "previous (example_zombie scale) =
      Some \<lparr> clicks = 200, impressions = 6000, ctr = (33 / 10) * scale, position = 6 \<rparr>"
    by (simp add: example_zombie_def)
  obtain d where d: "diagnoseDecay (example_zombie scale) w = Inr d"
     "score d = revivalScore (current (example_zombie scale))"
     "decayClass d = fst (taxonomy (current (example_zombie scale))
         (standardDeltas (current (example_zombie scale))
            \<lparr> clicks = 200, impressions = 6000, ctr = (33 / 10) * scale, position = 6 \<rparr>)
         (isCliff (current (example_zombie scale)) (recent (example_zombie scale))))"
     "severity d = map_of severityMap (decayClass d)"
     "changes d = deltas_rounded (standardDeltas (current (example_zombie scale))
            \<lparr> clicks = 200, impressions = 6000, ctr = (33 / 10) * scale, position = 6 \<rparr>)"
    using diagnoseDecay_Some[OF pv, of w] by blast
  have c: "decayClass d = Zombie"
    using assms
  proof
    assume s: "scale = 1"
    show ?thesis by (simp add: s d(3) example_zombie_def taxonomy_def double_evals)
  next
    assume s: "scale = 1 / 100"
    show ?thesis by (simp add: s d(3) example_zombie_def taxonomy_def double_evals)
  qed
  have s: "score d = 995"
    by (simp add: d(2) example_zombie_def eval_defs)
  have ch: "chg_impressions (changes d) = - (167 / 10)" "chg_clicks (changes d) = - (975 / 10)"
       "chg_position (changes d) = - 2"
    by (simp_all add: d(5) example_zombie_def eval_defs)
  show ?thesis
    using d(1) c s ch by (simp add: d(4) severityMap_def)
qed

section \<open>The percent change\<close>

text \<open>
  Claim C4. \<open>calculatePercentChange\<close> returns 100 for a zero previous value and a
  positive current one, 0 when both are zero, and otherwise
  \<open>(current - previous) / previous * 100\<close>, each of the three operations rounded as
  the doubles round it. In a diagnosis with previous present, of either analyzer, the
  returned change of clicks, of impressions and of the rate is 100 when the previous
  value is zero and the current one positive, and 0 when both are zero.
\<close>
theorem percent_change_zero_previous:
  fixes c p :: rat
  shows "(p = 0 \<and> c > 0 \<longrightarrow> calculatePercentChange c p = 100) \<and>
         (p = 0 \<and> c = 0 \<longrightarrow> calculatePercentChange c p = 0) \<and>
         (p \<noteq> 0 \<longrightarrow> calculatePercentChange c p = dmul (ddiv (dsub c p) p) 100) \<and>
         (previous pg = Some prev \<longrightarrow>
            (\<exists>d m. diagnoseDecay pg w = Inr d \<and>
                   calculateDecayMetrics (current pg) (previous pg) = Inr m \<and>
                   dm_changes m = changes d \<and>
               (clicks prev = 0 \<and> clicks (current pg) > 0 \<longrightarrow> chg_clicks (changes d) = 100) \<and>
               (clicks prev = 0 \<and> clicks (current pg) = 0 \<longrightarrow> chg_clicks (changes d) = 0) \<and>
               (impressions prev = 0 \<and> impressions (current pg) > 0 \<longrightarrow>
                  chg_impressions (changes d) = 100) \<and>
               (impressions prev = 0 \<and> impressions (current pg) = 0 \<longrightarrow>
                  chg_impressions (changes d) = 0) \<and>
               (ctr prev = 0 \<and> ctr (current pg) > 0 \<longrightarrow> chg_ctr (changes d) = 100) \<and>
               (ctr prev = 0 \<and> ctr (current pg) = 0 \<longrightarrow> chg_ctr (changes d) = 0)))"
proof (intro conjI impI)
  assume pv: "previous pg = Some prev"
  obtain d where d: "diagnoseDecay pg w = Inr d"
      "changes d = deltas_rounded (standardDeltas (current pg) prev)"
    using diagnoseDecay_Some[OF pv, of w] by blast
  obtain m where m: "calculateDecayMetrics (current pg) (previous pg) = Inr m"
      "dm_changes m = deltas_rounded (standardDeltas (current pg) prev)"
    using calculateDecayMetrics_Some[OF pv, of "current pg"] by blast
  show "\<exists>d m. diagnoseDecay pg w = Inr d \<and>
                   calculateDecayMetrics (current pg) (previous pg) = Inr m \<and>
                   dm_changes m = changes d \<and>
               (clicks prev = 0 \<and> clicks (current pg) > 0 \<longrightarrow> chg_clicks (changes d) = 100) \<and>
               (clicks prev = 0 \<and> clicks (current pg) = 0 \<longrightarrow> chg_clicks (changes d) = 0) \<and>
               (impressions prev = 0 \<and> impressions (current pg) > 0 \<longrightarrow>
                  chg_impressions (changes d) = 100) \<and>
               (impressions prev = 0 \<and> impressions (current pg) = 0 \<longrightarrow>
                  chg_impressions (changes d) = 0) \<and>
               (ctr prev = 0 \<and> ctr (current pg) > 0 \<longrightarrow> chg_ctr (changes d) = 100) \<and>
               (ctr prev = 0 \<and> ctr (current pg) = 0 \<longrightarrow> chg_ctr (changes d) = 0)"
    apply (rule exI[of _ d], rule exI[of _ m])
    apply (simp add: d m deltas_rounded_def standardDeltas_def rounded_zero_previous)
    done
qed (simp_all add: calculatePercentChange_def)


theorem percent_change_zero_previous_witness:
  "calculatePercentChange 7 0 = 100 \<and> calculatePercentChange 0 0 = 0 \<and>
   calculatePercentChange 150 100 = 50 \<and>
   calculatePercentChange 31 80 = - (8620171161763841 / 140737488355328) \<and>
   round1 (calculatePercentChange 31 80) = - (613 / 10) \<and>
   (\<exists>d m. diagnoseDecay zero_previous_page defaultWeights = Inr d \<and>
      calculateDecayMetrics (current zero_previous_page) (previous zero_previous_page) = Inr m \<and>
      dm_changes m = changes d \<and>
      chg_clicks (changes d) = 100 \<and> chg_impressions (changes d) = 0 \<and>
      chg_ctr (changes d) = 100)"
  using percent_change_zero_previous[of 0 7 zero_previous_page
          "\<lparr> clicks = 0, impressions = 0, ctr = 0, position = 9 \<rparr>" defaultWeights]
        percent_change_zero_previous[of 0 0]
        percent_change_zero_previous[of 100 150]
        percent_change_zero_previous[of 80 31]
  by (simp add: zero_previous_page_def double_evals round1_def Math_round_def
        floor_rat_minus_numeral)

section \<open>The revival score\<close>

text \<open>
  Claim C3. For every page with previous present the diagnosis is returned and its score
  is \<open>max(0, round(current.impressions * 0.20 - current.clicks))\<close>; the score is never
  negative, and it is 0 whenever \<open>current.clicks \<ge> current.impressions * 0.20\<close>.
\<close>
theorem revival_score_formula:
  assumes "previous pg = Some prev"
  shows "\<exists>d. diagnoseDecay pg w = Inr d \<and>
           score d = max 0 (round (of_int (impressions (current pg)) * (20 / 100 :: rat)
                                    - of_int (clicks (current pg)))) \<and>
           score d \<ge> 0 \<and>
           ((of_int (clicks (current pg)) :: rat) \<ge> of_int (impressions (current pg)) * (20 / 100)
              \<longrightarrow> score d = 0)"
proof -
  obtain d where d: "diagnoseDecay pg w = Inr d" "score d = revivalScore (current pg)"
    using diagnoseDecay_Some[OF assms, of w] by blast
  let ?x = "of_int (impressions (current pg)) * (20 / 100 :: rat) - of_int (clicks (current pg))"
  have s: "score d = max 0 (round ?x)"
    by (simp add: d revivalScore_def potentialClicks_def idealCtr_def Math_round_eq_round)
  have z: "score d = 0" if "(of_int (clicks (current pg)) :: rat) \<ge> of_int (impressions (current pg)) * (20 / 100)"
  proof -
    have "?x \<le> 0" using that by simp
    then have "round ?x \<le> round (0::rat)" by (rule round_mono)
    then show ?thesis using s by simp
  qed
  show ?thesis using d(1) s z by auto
qed

theorem revival_score_formula_witness:
  "\<exists>d. diagnoseDecay (example_zombie 1) defaultWeights = Inr d \<and> score d = 995 \<and>
       (\<exists>d'. diagnoseDecay zero_previous_page defaultWeights = Inr d' \<and> score d' = 0)"
  using revival_score_formula[of "example_zombie 1" _ defaultWeights]
        revival_score_formula[of zero_previous_page _ defaultWeights]
  by (auto simp add: example_zombie_def zero_previous_page_def)


section \<open>The classification\<close>

text \<open>
  Claim C1. For every page with previous present the class of the diagnosis is that of
  the first rule that matches, in the order ghost town, zombie, plunge, bleeder, rank
  rot, healthy, with decaying as the fallback. The deltas the rules read are the
  unrounded ones, as the doubles the code computes: the clicks change of
  \<open>calculatePercentChange\<close> and the position delta \<open>previous.position -
  current.position\<close>. The triggers of ghost town and of zombie never hold together, and
  the diagnosis does not depend on the weights.
\<close>
theorem classification_priority:
  assumes "previous pg = Some prev"
  shows "\<exists>d. diagnoseDecay pg w = Inr d \<and>
           decayClass d =
             first_match_spec
               (classification_rules_spec (current pg)
                  (calculatePercentChange (of_int (clicks (current pg))) (of_int (clicks prev)))
                  (dsub (position prev) (position (current pg)))
                  (isCliff (current pg) (recent pg)))
               Decaying \<and>
           \<not> ((clicks (current pg) = 0 \<and> impressions (current pg) < 100) \<and>
              (impressions (current pg) > 1000 \<and> fl (ctr (current pg)) < 1 / 2)) \<and>
           diagnoseDecay pg w' = Inr d"
proof -
  obtain d where d: "diagnoseDecay pg w = Inr d"
      "decayClass d = fst (taxonomy (current pg) (standardDeltas (current pg) prev)
                             (isCliff (current pg) (recent pg)))"
    using diagnoseDecay_Some[OF assms, of w] by blast
  have "diagnoseDecay pg w' = diagnoseDecay pg w"
    by (simp add: diagnoseDecay_def)
  then show ?thesis
    using d by (simp add: taxonomy_class standardDeltas_def)
qed

text \<open>
  The rules at the worked example, at a page without previous clicks, and at two pages
  whose position fell by three places: from 1.4 to 4.4 the delta of the doubles is
  \<open>-3.0000000000000004\<close>, below the threshold, and the page is rank rot; from 1.2 to
  4.2 it is \<open>-3\<close>, and the page is healthy.
\<close>
theorem classification_priority_witness:
  "(\<exists>d. diagnoseDecay (example_zombie 1) defaultWeights = Inr d \<and> decayClass d = Zombie) \<and>
   (\<exists>d. diagnoseDecay zero_previous_page defaultWeights = Inr d \<and> decayClass d = HealthyClass) \<and>
   dsub (7 / 5) (22 / 5) = - (6755399441055745 / 2251799813685248) \<and>
   (\<exists>d. diagnoseDecay (level_page (1 / 5) (1 / 5) (7 / 5) (22 / 5)) defaultWeights = Inr d \<and>
        decayClass d = RankRot) \<and>
   dsub (6 / 5) (21 / 5) = - 3 \<and>
   (\<exists>d. diagnoseDecay (level_page (1 / 5) (1 / 5) (6 / 5) (21 / 5)) defaultWeights = Inr d \<and>
        decayClass d = HealthyClass)"
  using classification_priority[of "example_zombie 1" _ defaultWeights defaultWeights]
        classification_priority[of zero_previous_page _ defaultWeights defaultWeights]
        classification_priority[of "level_page (1 / 5) (1 / 5) (7 / 5) (22 / 5)" _
          defaultWeights defaultWeights]
        classification_priority[of "level_page (1 / 5) (1 / 5) (6 / 5) (21 / 5)" _
          defaultWeights defaultWeights]
  by (auto simp add: example_zombie_def zero_previous_page_def level_page_def
        classification_rules_spec_def calculatePercentChange_def isCliff_def double_evals
        dmul_0 ddiv_0)

section \<open>The severity\<close>

text \<open>
  Claim C7. The lookup in \<open>severityMap\<close> is defined for each of the seven classes and
  gives plunge and rank rot critical, zombie and bleeder warning, ghost town and decaying
  monitoring, healthy healthy; so the severity of every diagnosis is one of the four
  values, and never \<open>undefined\<close>.
\<close>
theorem severity_mapping:
  "map_of severityMap c = Some (severity_table_spec c) \<and>
   severity_table_spec c \<in> {Critical, Warning, Monitoring, Healthy} \<and>
   (diagnoseDecay pg w = Inr d \<longrightarrow>
      severity d = Some (severity_table_spec (decayClass d)) \<and>
      severity d \<in> {Some Critical, Some Warning, Some Monitoring, Some Healthy})"
proof (intro conjI impI)
  show "map_of severityMap c = Some (severity_table_spec c)" by (rule severityMap_total)
  show "severity_table_spec c \<in> {Critical, Warning, Monitoring, Healthy}" by (cases c) simp_all
next
  assume a: "diagnoseDecay pg w = Inr d"
  then obtain prev where pv: "previous pg = Some prev"
    by (cases "previous pg") (simp_all add: diagnoseDecay_None)
  from diagnoseDecay_Some[OF pv, of w] a
  have s: "severity d = map_of severityMap (decayClass d)" by auto
  then show "severity d = Some (severity_table_spec (decayClass d))" by (simp add: severityMap_total)
  then show "severity d \<in> {Some Critical, Some Warning, Some Monitoring, Some Healthy}"
    by (cases "decayClass d") simp_all
qed

theorem severity_mapping_witness:
  "map_of severityMap Plunge = Some Critical \<and> map_of severityMap RankRot = Some Critical \<and>
   map_of severityMap Zombie = Some Warning \<and> map_of severityMap Bleeder = Some Warning \<and>
   map_of severityMap GhostTown = Some Monitoring \<and> map_of severityMap Decaying = Some Monitoring \<and>
   map_of severityMap HealthyClass = Some Healthy \<and>
   (\<exists>d. diagnoseDecay (example_zombie 1) defaultWeights = Inr d \<and> severity d = Some Warning)"
proof -
  obtain d where d: "diagnoseDecay (example_zombie 1) defaultWeights = Inr d" "decayClass d = Zombie"
    using example_zombie_eval[of 1 defaultWeights] by auto
  show ?thesis
    using severity_mapping[of Plunge] severity_mapping[of RankRot] severity_mapping[of Zombie]
      severity_mapping[of Bleeder] severity_mapping[of GhostTown] severity_mapping[of Decaying]
      severity_mapping[of HealthyClass "example_zombie 1" defaultWeights d] d
    by simp
qed

section \<open>The first worked example\<close>

text \<open>
  Claim C6. For current = (5 clicks, 5000 impressions, rate 0.1%, position 8), previous =
  (200 clicks, 6000 impressions, rate 3.3%, position 6) and no recent period, the
  diagnosis has impressions change -16.7, clicks change -97.5, position delta -2, class
  zombie, severity warning and score 995 = round(5000 * 0.20 - 5), whichever of the two
  scales carries the rates.
\<close>
theorem end_to_end_zombie:
  "recent (example_zombie 1) = None \<and> recent (example_zombie (1 / 100)) = None \<and>
   round (5000 * (20 / 100 :: rat) - 5) = 995 \<and>
   (\<exists>d. diagnoseDecay (example_zombie 1) w = Inr d \<and>
       chg_impressions (changes d) = - (167 / 10) \<and> chg_clicks (changes d) = - (975 / 10) \<and>
       chg_position (changes d) = - 2 \<and> decayClass d = Zombie \<and>
       severity d = Some Warning \<and> score d = 995) \<and>
   (\<exists>d. diagnoseDecay (example_zombie (1 / 100)) w = Inr d \<and>
       chg_impressions (changes d) = - (167 / 10) \<and> chg_clicks (changes d) = - (975 / 10) \<and>
       chg_position (changes d) = - 2 \<and> decayClass d = Zombie \<and>
       severity d = Some Warning \<and> score d = 995)"
proof (intro conjI)
  show "recent (example_zombie 1) = None" "recent (example_zombie (1 / 100)) = None"
    by (simp_all add: example_zombie_def)
  show "round (5000 * (20 / 100 :: rat) - 5) = 995" by simp
  show "\<exists>d. diagnoseDecay (example_zombie 1) w = Inr d \<and>
       chg_impressions (changes d) = - (167 / 10) \<and> chg_clicks (changes d) = - (975 / 10) \<and>
       chg_position (changes d) = - 2 \<and> decayClass d = Zombie \<and>
       severity d = Some Warning \<and> score d = 995"
    by (rule example_zombie_eval) simp
  show "\<exists>d. diagnoseDecay (example_zombie (1 / 100)) w = Inr d \<and>
       chg_impressions (changes d) = - (167 / 10) \<and> chg_clicks (changes d) = - (975 / 10) \<and>
       chg_position (changes d) = - 2 \<and> decayClass d = Zombie \<and>
       severity d = Some Warning \<and> score d = 995"
    by (rule example_zombie_eval) simp
qed

lemma analyzeContentDecay_single:
  assumes "previous pg = Some prev" "diagnoseDecay pg defaultWeights = Inr d"
  shows "analyzeContentDecay (PageArray [pg]) opts =
           Inr \<lparr> pages = [page_comparison.extend pg (analyzed_page.fields d)], dateRanges = None \<rparr>"
  using assms diagnoseDecay_weights[of pg _ defaultWeights]
  by (simp add: analyzeContentDecay_def annotate_def Let_def split: option.splits)

lemma cliff_page_class:
  "\<exists>d. diagnoseDecay cliff_page w = Inr d \<and> decayClass d = Plunge"
proof -
  have pv: "previous cliff_page =
      Some \<lparr> clicks = 310, impressions = 900, ctr = 31 / 90, position = 4 \<rparr>"
    by (simp add: cliff_page_def)
  obtain d where d: "diagnoseDecay cliff_page w = Inr d"
     "decayClass d = fst (taxonomy (current cliff_page)
         (standardDeltas (current cliff_page)
            \<lparr> clicks = 310, impressions = 900, ctr = 31 / 90, position = 4 \<rparr>)
         (isCliff (current cliff_page) (recent cliff_page)))"
    using diagnoseDecay_Some[OF pv, of w] by blast
  have "decayClass d = Plunge"
    by (simp add: d(2) cliff_page_def eval_defs)
  then show ?thesis using d(1) by blast
qed

section \<open>The velocity check\<close>

text \<open>
  Claim C8, as stated, at a concrete input: with the threshold configured as \<open>-80\<close> and
  a velocity change of \<open>-50\<close>, the rule of the claim gives no cliff; the code, which
  compares with the literal \<open>-30\<close> and reads no option, sets the cliff and returns the
  class plunge.
\<close>

theorem configured_cliff_threshold_counterexample:
  "recent cliff_page = Some \<lparr> clicks = 35, impressions = 200, ctr = 7 / 40, position = 4 \<rparr> \<and>
   velocityChange (current cliff_page) \<lparr> clicks = 35, impressions = 200, ctr = 7 / 40, position = 4 \<rparr> = - 50 \<and>
   cliffThresholdPct_spec cliff_options = - 80 \<and>
   isCliff (current cliff_page) (recent cliff_page) \<and>
   \<not> isCliff_spec cliff_options (current cliff_page) (recent cliff_page) \<and>
   classes_of_run (PageArray [cliff_page]) cliff_options = Inr [Plunge]"
proof -
  obtain d where d: "diagnoseDecay cliff_page defaultWeights = Inr d" "decayClass d = Plunge"
    using cliff_page_class by blast
  have pv: "previous cliff_page =
      Some \<lparr> clicks = 310, impressions = 900, ctr = 31 / 90, position = 4 \<rparr>"
    by (simp add: cliff_page_def)
  have run: "classes_of_run (PageArray [cliff_page]) cliff_options = Inr [Plunge]"
    by (simp add: classes_of_run_def analyzeContentDecay_single[OF pv d(1)] d(2)
          page_comparison.extend_def analyzed_page.fields_def)
  show ?thesis
    using run
    by (simp add: cliff_page_def cliff_options_def cliffThresholdPct_spec_def isCliff_spec_def
          isCliff_def velocityChange_def calculatePercentChange_def double_evals)
qed

lemma example_rank_rot_eval:
  "\<exists>d. diagnoseDecay (example_rank_rot c1 c2 c3 p3) w = Inr d \<and>
       decayClass d = RankRot \<and> severity d = Some Critical \<and> chg_position (changes d) = - 5"
proof -
  let ?pg = "example_rank_rot c1 c2 c3 p3"
  have pv: "previous ?pg =
      Some \<lparr> clicks = 300, impressions = 2000, ctr = c2, position = 5 \<rparr>"
    by (simp add: example_rank_rot_def)
  obtain d where d: "diagnoseDecay ?pg w = Inr d"
     "decayClass d = fst (taxonomy (current ?pg)
         (standardDeltas (current ?pg)
            \<lparr> clicks = 300, impressions = 2000, ctr = c2, position = 5 \<rparr>)
         (isCliff (current ?pg) (recent ?pg)))"
     "severity d = map_of severityMap (decayClass d)"
     "changes d = deltas_rounded (standardDeltas (current ?pg)
            \<lparr> clicks = 300, impressions = 2000, ctr = c2, position = 5 \<rparr>)"
    using diagnoseDecay_Some[OF pv, of w] by blast
  have c: "decayClass d = RankRot"
    by (simp add: d(2) example_rank_rot_def eval_defs)
  have p: "chg_position (changes d) = - 5"
    by (simp add: d(4) example_rank_rot_def eval_defs)
  show ?thesis using d(1) c p by (simp add: d(3) severityMap_def)
qed

lemma plunge_needs_cliff:
  "fst (taxonomy cur chg cliff) = Plunge \<longleftrightarrow>
     cliff \<and> \<not> (clicks cur = 0 \<and> impressions cur < 100) \<and>
     \<not> (impressions cur > 1000 \<and> fl (ctr cur) < 1 / 2)"
  by (simp add: taxonomy_def)

text \<open>
  Claim C8, amended. The cliff is set exactly when recent is present and
  \<open>calculatePercentChange(recent.clicks / 7, current.clicks / 30) < -30\<close>, the threshold
  being the literal \<open>-30\<close>: a configured \<open>cliffThresholdPct\<close> changes nothing in the
  result of the analysis. Without recent there is no cliff and the class is never plunge.
  In the second worked example the velocity change is the double
  \<open>71.42857142857143\<close> (about +71), not a cliff, and the page is rank rot (position
  delta -5) with severity critical.
\<close>
theorem cliff_check:
  "isCliff cur None = False \<and>
   isCliff cur (Some rec) =
     (calculatePercentChange (of_int (clicks rec) / 7) (of_int (clicks cur) / 30) < - 30) \<and>
   analyzeContentDecay cr (opts\<lparr> opt_cliffThresholdPct := t \<rparr>) = analyzeContentDecay cr opts \<and>
   (previous pg = Some prev \<and> recent pg = None \<longrightarrow>
      (\<exists>d. diagnoseDecay pg w = Inr d \<and> decayClass d \<noteq> Plunge)) \<and>
   velocityChange (current (example_rank_rot c1 c2 c3 p3))
       \<lparr> clicks = 20, impressions = 150, ctr = c3, position = p3 \<rparr> =
     5026338869833143 / 70368744177664 \<and>
   71 < velocityChange (current (example_rank_rot c1 c2 c3 p3))
       \<lparr> clicks = 20, impressions = 150, ctr = c3, position = p3 \<rparr> \<and>
   velocityChange (current (example_rank_rot c1 c2 c3 p3))
       \<lparr> clicks = 20, impressions = 150, ctr = c3, position = p3 \<rparr> < 72 \<and>
   \<not> isCliff (current (example_rank_rot c1 c2 c3 p3)) (recent (example_rank_rot c1 c2 c3 p3)) \<and>
   (\<exists>d. diagnoseDecay (example_rank_rot c1 c2 c3 p3) w = Inr d \<and>
        decayClass d = RankRot \<and> severity d = Some Critical \<and> chg_position (changes d) = - 5)"
proof (intro conjI impI)
  show "isCliff cur None = False" by (simp add: isCliff_def)
  show "isCliff cur (Some rec) =
     (calculatePercentChange (of_int (clicks rec) / 7) (of_int (clicks cur) / 30) < - 30)"
    by (simp add: isCliff_def velocityChange_def)
  show "analyzeContentDecay cr (opts\<lparr> opt_cliffThresholdPct := t \<rparr>) = analyzeContentDecay cr opts"
    by (simp add: analyzeContentDecay_def)
  show v: "velocityChange (current (example_rank_rot c1 c2 c3 p3))
       \<lparr> clicks = 20, impressions = 150, ctr = c3, position = p3 \<rparr> =
     5026338869833143 / 70368744177664"
    by (simp add: example_rank_rot_def velocityChange_def calculatePercentChange_def
          double_evals)
  show "71 < velocityChange (current (example_rank_rot c1 c2 c3 p3))
       \<lparr> clicks = 20, impressions = 150, ctr = c3, position = p3 \<rparr>"
    unfolding v by simp
  show "velocityChange (current (example_rank_rot c1 c2 c3 p3))
       \<lparr> clicks = 20, impressions = 150, ctr = c3, position = p3 \<rparr> < 72"
    unfolding v by simp
  show "\<not> isCliff (current (example_rank_rot c1 c2 c3 p3)) (recent (example_rank_rot c1 c2 c3 p3))"
    by (simp add: example_rank_rot_def isCliff_def velocityChange_def calculatePercentChange_def
          double_evals)
  show "\<exists>d. diagnoseDecay (example_rank_rot c1 c2 c3 p3) w = Inr d \<and>
        decayClass d = RankRot \<and> severity d = Some Critical \<and> chg_position (changes d) = - 5"
    by (rule example_rank_rot_eval)
next
  assume a: "previous pg = Some prev \<and> recent pg = None"
  then obtain d where d: "diagnoseDecay pg w = Inr d"
     "decayClass d = fst (taxonomy (current pg) (standardDeltas (current pg) prev)
                             (isCliff (current pg) (recent pg)))"
    using diagnoseDecay_Some[of pg prev w] by blast
  have "decayClass d \<noteq> Plunge"
    using a by (simp add: d(2) plunge_needs_cliff isCliff_def)
  then show "\<exists>d. diagnoseDecay pg w = Inr d \<and> decayClass d \<noteq> Plunge"
    using d(1) by blast
qed

theorem cliff_check_witness:
  "isCliff (current cliff_page) (recent cliff_page) \<and>
   analyzeContentDecay (PageArray [cliff_page]) cliff_options =
     analyzeContentDecay (PageArray [cliff_page]) \<lparr> opt_weights = None, opt_cliffThresholdPct = None \<rparr> \<and>
   previous (example_zombie 1) \<noteq> None \<and> recent (example_zombie 1) = None \<and>
   (\<exists>d. diagnoseDecay (example_zombie 1) defaultWeights = Inr d \<and> decayClass d \<noteq> Plunge)"
  using cliff_check[where cur = "current cliff_page"
          and rec = "\<lparr> clicks = 35, impressions = 200, ctr = 7 / 40, position = 4 \<rparr>"
          and cr = "PageArray [cliff_page]"
          and opts = "\<lparr> opt_weights = None, opt_cliffThresholdPct = None \<rparr>"
          and t = "Some (- 80)" and pg = "example_zombie 1"
          and prev = "\<lparr> clicks = 200, impressions = 6000, ctr = 33 / 10, position = 6 \<rparr>"
          and w = defaultWeights]
  by (simp add: cliff_page_def cliff_options_def example_zombie_def calculatePercentChange_def
        double_evals)


lemma signals_page_eval:
  "\<exists>d. diagnoseDecay signals_page w = Inr d \<and> decayClass d = RankRot \<and>
       chg_clicks (changes d) = - 50 \<and> chg_impressions (changes d) = - 25 \<and> signals d = []"
proof -
  have pv: "previous signals_page =
      Some \<lparr> clicks = 100, impressions = 1000, ctr = 1 / 10, position = 5 \<rparr>"
    by (simp add: signals_page_def)
  obtain d where d: "diagnoseDecay signals_page w = Inr d"
     "decayClass d = fst (taxonomy (current signals_page)
         (standardDeltas (current signals_page)
            \<lparr> clicks = 100, impressions = 1000, ctr = 1 / 10, position = 5 \<rparr>)
         (isCliff (current signals_page) (recent signals_page)))"
     "signals d = fst (snd (taxonomy (current signals_page)
         (standardDeltas (current signals_page)
            \<lparr> clicks = 100, impressions = 1000, ctr = 1 / 10, position = 5 \<rparr>)
         (isCliff (current signals_page) (recent signals_page))))"
     "changes d = deltas_rounded (standardDeltas (current signals_page)
            \<lparr> clicks = 100, impressions = 1000, ctr = 1 / 10, position = 5 \<rparr>)"
    using diagnoseDecay_Some[OF pv, of w] by blast
  have c: "decayClass d = RankRot" "signals d = []"
    by (simp_all add: d(2,3) signals_page_def eval_defs)
  have ch: "chg_clicks (changes d) = - 50" "chg_impressions (changes d) = - 25"
    by (simp_all add: d(4) signals_page_def eval_defs)
  show ?thesis using d(1) c ch by simp
qed

section \<open>The signals\<close>

text \<open>
  Claim C2, as stated, at its own example: a page with a clicks change of -50 and an
  impressions change of -25 that the revival diagnoser classifies as rank rot has an
  empty list of signals, so neither \<open>traffic_loss\<close> nor \<open>visibility_drop\<close> is in it.
\<close>

theorem threshold_signals_counterexample:
  "map_sum id decayClass (diagnoseDecay signals_page defaultWeights) = Inr RankRot \<and>
   map_sum id (chg_clicks \<circ> changes) (diagnoseDecay signals_page defaultWeights) = Inr (- 50) \<and>
   map_sum id (chg_impressions \<circ> changes) (diagnoseDecay signals_page defaultWeights) = Inr (- 25) \<and>
   map_sum id signals (diagnoseDecay signals_page defaultWeights) = Inr []"
proof -
  obtain d where "diagnoseDecay signals_page defaultWeights = Inr d \<and> decayClass d = RankRot \<and>
       chg_clicks (changes d) = - 50 \<and> chg_impressions (changes d) = - 25 \<and> signals d = []"
    using signals_page_eval[of defaultWeights] by blast
  then show ?thesis by simp
qed

lemma taxonomy_signals:
  "fst (snd (taxonomy cur chg cliff)) =
     (if fst (taxonomy cur chg cliff) = Zombie then [''low_ctr_high_imp'']
      else if fst (taxonomy cur chg cliff) = Plunge then [''velocity_cliff'']
      else if fst (taxonomy cur chg cliff) = Bleeder then [''slow_bleed'']
      else [])"
  by (simp add: taxonomy_def)

lemma zombie_iff:
  "fst (taxonomy cur chg cliff) = Zombie \<longleftrightarrow> impressions cur > 1000 \<and> fl (ctr cur) < 1 / 2"
  by (auto simp add: taxonomy_def)

lemma decaySignals_mem:
  "''visibility_drop'' \<in> set (decaySignals chg) \<longleftrightarrow> chg_impressions chg < - 20"
  "''traffic_loss'' \<in> set (decaySignals chg) \<longleftrightarrow> chg_clicks chg < - 30"
  "''ctr_decline'' \<in> set (decaySignals chg) \<longleftrightarrow> chg_ctr chg < - 15"
  "''ranking_drop'' \<in> set (decaySignals chg) \<longleftrightarrow> chg_position chg < - 3"
  by (simp_all add: decaySignals_def)

lemma decaySignals_subset:
  "set (decaySignals chg) \<subseteq> {''visibility_drop'', ''traffic_loss'', ''ctr_decline'', ''ranking_drop''}"
  by (auto simp add: decaySignals_def)

text \<open>
  Claim C2, amended. In the revival diagnoser the signals follow the class that matched:
  \<open>low_ctr_high_imp\<close> exactly when the zombie rule matched, \<open>velocity_cliff\<close> exactly when
  the class is plunge, \<open>slow_bleed\<close> for a bleeder, and nothing else. The four threshold
  tags belong to the basic analyzer, which records each exactly when its condition on the
  unrounded deltas holds, whatever the severity: \<open>visibility_drop\<close> for an impressions
  change below -20, \<open>traffic_loss\<close> for a clicks change below -30, \<open>ctr_decline\<close> for a
  rate change below -15, \<open>ranking_drop\<close> for a position delta below -3. The deltas are
  the doubles the code computes.
\<close>
theorem signals_by_analyzer:
  assumes "previous pg = Some prev"
  shows "\<exists>d m. diagnoseDecay pg w = Inr d \<and>
     calculateDecayMetrics (current pg) (previous pg) = Inr m \<and>
     signals d =
       (if decayClass d = Zombie then [''low_ctr_high_imp'']
        else if decayClass d = Plunge then [''velocity_cliff'']
        else if decayClass d = Bleeder then [''slow_bleed'']
        else []) \<and>
     (''low_ctr_high_imp'' \<in> set (signals d) \<longleftrightarrow>
        impressions (current pg) > 1000 \<and> fl (ctr (current pg)) < 1 / 2) \<and>
     (''velocity_cliff'' \<in> set (signals d) \<longleftrightarrow> decayClass d = Plunge) \<and>
     (''visibility_drop'' \<in> set (dm_signals m) \<longleftrightarrow>
        calculatePercentChange (of_int (impressions (current pg))) (of_int (impressions prev)) < - 20) \<and>
     (''traffic_loss'' \<in> set (dm_signals m) \<longleftrightarrow>
        calculatePercentChange (of_int (clicks (current pg))) (of_int (clicks prev)) < - 30) \<and>
     (''ctr_decline'' \<in> set (dm_signals m) \<longleftrightarrow>
        calculatePercentChange (ctr (current pg)) (ctr prev) < - 15) \<and>
     (''ranking_drop'' \<in> set (dm_signals m) \<longleftrightarrow>
        dsub (position prev) (position (current pg)) < - 3) \<and>
     set (dm_signals m) \<subseteq> {''visibility_drop'', ''traffic_loss'', ''ctr_decline'', ''ranking_drop''}"
proof -
  let ?chg = "standardDeltas (current pg) prev"
  let ?t = "taxonomy (current pg) ?chg (isCliff (current pg) (recent pg))"
  obtain d where d: "diagnoseDecay pg w = Inr d" "decayClass d = fst ?t" "signals d = fst (snd ?t)"
    using diagnoseDecay_Some[OF assms, of w] by blast
  obtain m where m: "calculateDecayMetrics (current pg) (previous pg) = Inr m"
      "dm_signals m = decaySignals ?chg"
    using calculateDecayMetrics_Some[OF assms, of "current pg"] by blast
  have s: "signals d =
       (if decayClass d = Zombie then [''low_ctr_high_imp'']
        else if decayClass d = Plunge then [''velocity_cliff'']
        else if decayClass d = Bleeder then [''slow_bleed'']
        else [])"
    by (simp only: d(2,3) taxonomy_signals)
  have z: "''low_ctr_high_imp'' \<in> set (signals d) \<longleftrightarrow>
        impressions (current pg) > 1000 \<and> fl (ctr (current pg)) < 1 / 2"
    using zombie_iff[of "current pg" ?chg "isCliff (current pg) (recent pg)"]
    by (simp add: s d(2))
  have v: "''velocity_cliff'' \<in> set (signals d) \<longleftrightarrow> decayClass d = Plunge"
    by (simp add: s)
  have b: "''visibility_drop'' \<in> set (dm_signals m) \<longleftrightarrow>
        calculatePercentChange (of_int (impressions (current pg))) (of_int (impressions prev)) < - 20"
     "''traffic_loss'' \<in> set (dm_signals m) \<longleftrightarrow>
        calculatePercentChange (of_int (clicks (current pg))) (of_int (clicks prev)) < - 30"
     "''ctr_decline'' \<in> set (dm_signals m) \<longleftrightarrow>
        calculatePercentChange (ctr (current pg)) (ctr prev) < - 15"
     "''ranking_drop'' \<in> set (dm_signals m) \<longleftrightarrow>
        dsub (position prev) (position (current pg)) < - 3"
    by (simp_all add: m(2) decaySignals_mem standardDeltas_def)
  have sub: "set (dm_signals m) \<subseteq> {''visibility_drop'', ''traffic_loss'', ''ctr_decline'', ''ranking_drop''}"
    by (simp only: m(2) decaySignals_subset)
  show ?thesis
    using d(1) m(1) s z v b sub by blast
qed

lemma level_page_signals:
  "\<exists>m. calculateDecayMetrics (current (level_page (1 / 5) (1 / 5) (7 / 5) (22 / 5)))
          (previous (level_page (1 / 5) (1 / 5) (7 / 5) (22 / 5))) = Inr m \<and>
        dm_signals m = [''ranking_drop'']"
  "\<exists>m. calculateDecayMetrics (current (level_page (1 / 5) (1 / 5) (6 / 5) (21 / 5)))
          (previous (level_page (1 / 5) (1 / 5) (6 / 5) (21 / 5))) = Inr m \<and>
        dm_signals m = []"
  "\<exists>m. calculateDecayMetrics (current (level_page (3 / 50) (51 / 1000) 5 5))
          (previous (level_page (3 / 50) (51 / 1000) 5 5)) = Inr m \<and>
        dm_signals m = [''ctr_decline'']"
proof -
  have sig: "\<exists>m. calculateDecayMetrics (current (level_page a b c d))
          (previous (level_page a b c d)) = Inr m \<and>
        dm_signals m =
          decaySignals (standardDeltas (current (level_page a b c d))
            \<lparr> clicks = 100, impressions = 500, ctr = a, position = c \<rparr>)" for a b c d
    using calculateDecayMetrics_Some[of "previous (level_page a b c d)"
            "\<lparr> clicks = 100, impressions = 500, ctr = a, position = c \<rparr>"
            "current (level_page a b c d)"]
    by (auto simp add: level_page_def)
  have e: "decaySignals (standardDeltas (current (level_page (1 / 5) (1 / 5) (7 / 5) (22 / 5)))
            \<lparr> clicks = 100, impressions = 500, ctr = 1 / 5, position = 7 / 5 \<rparr>) =
          [''ranking_drop'']"
      "decaySignals (standardDeltas (current (level_page (1 / 5) (1 / 5) (6 / 5) (21 / 5)))
            \<lparr> clicks = 100, impressions = 500, ctr = 1 / 5, position = 6 / 5 \<rparr>) = []"
      "decaySignals (standardDeltas (current (level_page (3 / 50) (51 / 1000) 5 5))
            \<lparr> clicks = 100, impressions = 500, ctr = 3 / 50, position = 5 \<rparr>) =
          [''ctr_decline'']"
    by (simp_all add: level_page_def decaySignals_def standardDeltas_def
          calculatePercentChange_def double_evals dmul_0 ddiv_0)
  show "\<exists>m. calculateDecayMetrics (current (level_page (1 / 5) (1 / 5) (7 / 5) (22 / 5)))
          (previous (level_page (1 / 5) (1 / 5) (7 / 5) (22 / 5))) = Inr m \<and>
        dm_signals m = [''ranking_drop'']"
    using sig[of "1 / 5" "1 / 5" "7 / 5" "22 / 5"] by (simp only: e)
  show "\<exists>m. calculateDecayMetrics (current (level_page (1 / 5) (1 / 5) (6 / 5) (21 / 5)))
          (previous (level_page (1 / 5) (1 / 5) (6 / 5) (21 / 5))) = Inr m \<and>
        dm_signals m = []"
    using sig[of "1 / 5" "1 / 5" "6 / 5" "21 / 5"] by (simp only: e)
  show "\<exists>m. calculateDecayMetrics (current (level_page (3 / 50) (51 / 1000) 5 5))
          (previous (level_page (3 / 50) (51 / 1000) 5 5)) = Inr m \<and>
        dm_signals m = [''ctr_decline'']"
    using sig[of "3 / 50" "51 / 1000" 5 5] by (simp only: e)
qed

text \<open>
  The signals of both analyzers at the page of the claim's example, and those of the
  basic analyzer at three pages near a threshold: a position that fell from 1.4 to 4.4
  (delta \<open>-3.0000000000000004\<close>) records \<open>ranking_drop\<close>, one that fell from 1.2 to 4.2
  (delta \<open>-3\<close>) does not, and a rate that fell from 0.06 to 0.051 (change
  \<open>-15.000000000000002\<close>) records \<open>ctr_decline\<close>.
\<close>
theorem signals_by_analyzer_witness:
  "(\<exists>d m. diagnoseDecay signals_page defaultWeights = Inr d \<and>
     calculateDecayMetrics (current signals_page) (previous signals_page) = Inr m \<and>
     signals d = [] \<and>
     dm_signals m = [''visibility_drop'', ''traffic_loss'', ''ctr_decline'', ''ranking_drop'']) \<and>
   (\<exists>m. calculateDecayMetrics (current (level_page (1 / 5) (1 / 5) (7 / 5) (22 / 5)))
          (previous (level_page (1 / 5) (1 / 5) (7 / 5) (22 / 5))) = Inr m \<and>
        dm_signals m = [''ranking_drop'']) \<and>
   (\<exists>m. calculateDecayMetrics (current (level_page (1 / 5) (1 / 5) (6 / 5) (21 / 5)))
          (previous (level_page (1 / 5) (1 / 5) (6 / 5) (21 / 5))) = Inr m \<and>
        dm_signals m = []) \<and>
   calculatePercentChange (51 / 1000) (3 / 50) = - (8444249301319681 / 562949953421312) \<and>
   (\<exists>m. calculateDecayMetrics (current (level_page (3 / 50) (51 / 1000) 5 5))
          (previous (level_page (3 / 50) (51 / 1000) 5 5)) = Inr m \<and>
        dm_signals m = [''ctr_decline''])"
proof -
  have pv: "previous signals_page =
      Some \<lparr> clicks = 100, impressions = 1000, ctr = 1 / 10, position = 5 \<rparr>"
    by (simp add: signals_page_def)
  obtain d m where dm: "diagnoseDecay signals_page defaultWeights = Inr d"
     "calculateDecayMetrics (current signals_page) (previous signals_page) = Inr m"
     "signals d =
       (if decayClass d = Zombie then [''low_ctr_high_imp'']
        else if decayClass d = Plunge then [''velocity_cliff'']
        else if decayClass d = Bleeder then [''slow_bleed'']
        else [])"
    using signals_by_analyzer[OF pv, of defaultWeights] by blast
  obtain d' where d': "diagnoseDecay signals_page defaultWeights = Inr d'" "decayClass d' = RankRot"
    using signals_page_eval[of defaultWeights] by blast
  have "d' = d" using dm(1) d'(1) by simp
  then have s: "signals d = []" using dm(3) d'(2) by simp
  obtain m' where m': "calculateDecayMetrics (current signals_page) (previous signals_page) = Inr m'"
     "dm_signals m' = decaySignals (standardDeltas (current signals_page)
        \<lparr> clicks = 100, impressions = 1000, ctr = 1 / 10, position = 5 \<rparr>)"
    using calculateDecayMetrics_Some[OF pv, of "current signals_page"] by blast
  have "m' = m" using dm(2) m'(1) by simp
  then have "dm_signals m = [''visibility_drop'', ''traffic_loss'', ''ctr_decline'', ''ranking_drop'']"
    using m'(2)
    by (simp add: signals_page_def decaySignals_def standardDeltas_def calculatePercentChange_def
          double_evals)
  then have first: "\<exists>d m. diagnoseDecay signals_page defaultWeights = Inr d \<and>
     calculateDecayMetrics (current signals_page) (previous signals_page) = Inr m \<and>
     signals d = [] \<and>
     dm_signals m = [''visibility_drop'', ''traffic_loss'', ''ctr_decline'', ''ranking_drop'']"
    using dm(1,2) s by blast
  have rate: "calculatePercentChange (51 / 1000) (3 / 50) =
      - (8444249301319681 / 562949953421312)"
    by (simp add: calculatePercentChange_def double_evals)
  show ?thesis
    using first level_page_signals rate by (intro conjI)
qed

lemma severity_partition:
  "(\<forall>p\<in>set ps. g p \<noteq> None) \<Longrightarrow>
   length (filter (\<lambda>p. g p = Some Critical) ps) + length (filter (\<lambda>p. g p = Some Warning) ps) +
   length (filter (\<lambda>p. g p = Some Monitoring) ps) + length (filter (\<lambda>p. g p = Some Healthy) ps) =
   length ps"
proof (induction ps)
  case Nil
  then show ?case by simp
next
  case (Cons p ps)
  then obtain sv where "g p = Some sv" by auto
  with Cons show ?case by (cases sv) simp_all
qed

lemma severity_partition_basic:
  "length (filter (\<lambda>p. g p = Critical) ps) + length (filter (\<lambda>p. g p = Warning) ps) +
   length (filter (\<lambda>p. g p = Monitoring) ps) + length (filter (\<lambda>p. g p = Healthy) ps) =
   length ps"
proof (induction ps)
  case Nil
  then show ?case by simp
next
  case (Cons p ps)
  then show ?case by (cases "g p") simp_all
qed

lemma filter_none: "(\<forall>p\<in>set ps. \<not> P p) \<Longrightarrow> filter P ps = []"
  by (induction ps) simp_all

lemma Math_round_0: "Math_round 0 = 0"
  by (simp add: Math_round_eq_round)

lemma calculateSiteSummary_nonempty:
  assumes "ps \<noteq> []"
  shows "totalPages (calculateSiteSummary ps) = length ps"
    "criticalCount (calculateSiteSummary ps) = length (filter (\<lambda>p. severity (decay p) = Some Critical) ps)"
    "warningCount (calculateSiteSummary ps) = length (filter (\<lambda>p. severity (decay p) = Some Warning) ps)"
    "monitoringCount (calculateSiteSummary ps) = length (filter (\<lambda>p. severity (decay p) = Some Monitoring) ps)"
    "healthyCount (calculateSiteSummary ps) = length (filter (\<lambda>p. severity (decay p) = Some Healthy) ps)"
    "healthScore (calculateSiteSummary ps) =
       round (dmul (ddiv (of_nat (healthyCount (calculateSiteSummary ps) + monitoringCount (calculateSiteSummary ps)))
                         (of_nat (totalPages (calculateSiteSummary ps)))) 100)"
    "avgDecayScore (calculateSiteSummary ps) =
       of_int (round (dmul (ddiv (foldl dadd 0 (map (\<lambda>p. of_int (score (decay p))) ps))
                                 (of_nat (length ps))) 10)) / 10"
  using assms
  by (simp_all add: calculateSiteSummary_def groupByDecaySeverity_def Let_def Math_round_eq_round
        round1_def foldl_map)

lemma calculateSiteSummary_basic_nonempty:
  assumes "ps \<noteq> []"
  shows "totalPages (calculateSiteSummary_basic ps) = length ps"
    "criticalCount (calculateSiteSummary_basic ps) = length (filter (\<lambda>p. dm_severity (decay p) = Critical) ps)"
    "warningCount (calculateSiteSummary_basic ps) = length (filter (\<lambda>p. dm_severity (decay p) = Warning) ps)"
    "monitoringCount (calculateSiteSummary_basic ps) = length (filter (\<lambda>p. dm_severity (decay p) = Monitoring) ps)"
    "healthyCount (calculateSiteSummary_basic ps) = length (filter (\<lambda>p. dm_severity (decay p) = Healthy) ps)"
    "healthScore (calculateSiteSummary_basic ps) =
       round (dmul (ddiv (of_nat (healthyCount (calculateSiteSummary_basic ps) + monitoringCount (calculateSiteSummary_basic ps)))
                         (of_nat (totalPages (calculateSiteSummary_basic ps)))) 100)"
    "avgDecayScore (calculateSiteSummary_basic ps) =
       of_int (round (dmul (ddiv (foldl dadd 0 (map (\<lambda>p. dm_score (decay p)) ps))
                                 (of_nat (length ps))) 10)) / 10"
  using assms
  by (simp_all add: calculateSiteSummary_basic_def groupByDecaySeverity_basic_def Let_def Math_round_eq_round
        round1_def foldl_map)


section \<open>The site summary\<close>

text \<open>
  Claim C5. On the empty list the summary has no pages, four zero counts and a health
  score of 100. On a non-empty list the total is the length of the list, each count is
  the number of pages of that severity, the health score is
  \<open>round((healthyCount + monitoringCount) / totalPages * 100)\<close> and the average score is
  \<open>round(mean(score) * 10) / 10\<close>, the mean being the sum of the scores, taken from left
  to right, divided by the number of pages, and every operation rounded as the doubles
  round it; the four counts add up to the total when every page has one of the four
  severities, as every diagnosis has; and the health score is 0 when every page is
  critical. The same holds for the summary of the basic analyzer.
\<close>
theorem site_summary_spec:
  "calculateSiteSummary [] =
     \<lparr> totalPages = 0, criticalCount = 0, warningCount = 0, monitoringCount = 0,
       healthyCount = 0, healthScore = 100, avgDecayScore = 0 \<rparr> \<and>
   (ps \<noteq> [] \<longrightarrow>
      totalPages (calculateSiteSummary ps) = length ps \<and>
      criticalCount (calculateSiteSummary ps) =
        length (filter (\<lambda>p. severity (decay p) = Some Critical) ps) \<and>
      warningCount (calculateSiteSummary ps) =
        length (filter (\<lambda>p. severity (decay p) = Some Warning) ps) \<and>
      monitoringCount (calculateSiteSummary ps) =
        length (filter (\<lambda>p. severity (decay p) = Some Monitoring) ps) \<and>
      healthyCount (calculateSiteSummary ps) =
        length (filter (\<lambda>p. severity (decay p) = Some Healthy) ps) \<and>
      healthScore (calculateSiteSummary ps) =
        round (dmul (ddiv (of_nat (healthyCount (calculateSiteSummary ps) + monitoringCount (calculateSiteSummary ps)))
                          (of_nat (totalPages (calculateSiteSummary ps)))) 100) \<and>
      avgDecayScore (calculateSiteSummary ps) =
        of_int (round (dmul (ddiv (foldl dadd 0 (map (\<lambda>p. of_int (score (decay p))) ps))
                                  (of_nat (length ps))) 10)) / 10 \<and>
      ((\<forall>p\<in>set ps. severity (decay p) \<noteq> None) \<longrightarrow>
         criticalCount (calculateSiteSummary ps) + warningCount (calculateSiteSummary ps) +
         monitoringCount (calculateSiteSummary ps) + healthyCount (calculateSiteSummary ps) =
         totalPages (calculateSiteSummary ps)) \<and>
      ((\<forall>p\<in>set ps. severity (decay p) = Some Critical) \<longrightarrow>
         healthScore (calculateSiteSummary ps) = 0)) \<and>
   totalPages (calculateSiteSummary_basic []) = 0 \<and>
   criticalCount (calculateSiteSummary_basic []) = 0 \<and>
   warningCount (calculateSiteSummary_basic []) = 0 \<and>
   monitoringCount (calculateSiteSummary_basic []) = 0 \<and>
   healthyCount (calculateSiteSummary_basic []) = 0 \<and>
   healthScore (calculateSiteSummary_basic []) = 100 \<and>
   (bs \<noteq> [] \<longrightarrow>
      totalPages (calculateSiteSummary_basic bs) = length bs \<and>
      criticalCount (calculateSiteSummary_basic bs) =
        length (filter (\<lambda>p. dm_severity (decay p) = Critical) bs) \<and>
      warningCount (calculateSiteSummary_basic bs) =
        length (filter (\<lambda>p. dm_severity (decay p) = Warning) bs) \<and>
      monitoringCount (calculateSiteSummary_basic bs) =
        length (filter (\<lambda>p. dm_severity (decay p) = Monitoring) bs) \<and>
      healthyCount (calculateSiteSummary_basic bs) =
        length (filter (\<lambda>p. dm_severity (decay p) = Healthy) bs) \<and>
      healthScore (calculateSiteSummary_basic bs) =
        round (dmul (ddiv (of_nat (healthyCount (calculateSiteSummary_basic bs) + monitoringCount (calculateSiteSummary_basic bs)))
                          (of_nat (totalPages (calculateSiteSummary_basic bs)))) 100) \<and>
      avgDecayScore (calculateSiteSummary_basic bs) =
        of_int (round (dmul (ddiv (foldl dadd 0 (map (\<lambda>p. dm_score (decay p)) bs))
                                  (of_nat (length bs))) 10)) / 10 \<and>
      criticalCount (calculateSiteSummary_basic bs) + warningCount (calculateSiteSummary_basic bs) +
      monitoringCount (calculateSiteSummary_basic bs) + healthyCount (calculateSiteSummary_basic bs) =
      totalPages (calculateSiteSummary_basic bs) \<and>
      ((\<forall>p\<in>set bs. dm_severity (decay p) = Critical) \<longrightarrow>
         healthScore (calculateSiteSummary_basic bs) = 0))"
proof -
  have e: "calculateSiteSummary [] =
     \<lparr> totalPages = 0, criticalCount = 0, warningCount = 0, monitoringCount = 0,
       healthyCount = 0, healthScore = 100, avgDecayScore = 0 \<rparr>"
    by (simp add: calculateSiteSummary_def createEmptySummary_def)
  have eb: "totalPages (calculateSiteSummary_basic []) = 0"
      "criticalCount (calculateSiteSummary_basic []) = 0"
      "warningCount (calculateSiteSummary_basic []) = 0"
      "monitoringCount (calculateSiteSummary_basic []) = 0"
      "healthyCount (calculateSiteSummary_basic []) = 0"
      "healthScore (calculateSiteSummary_basic []) = 100"
    by (simp_all add: calculateSiteSummary_basic_def)
  have part: "criticalCount (calculateSiteSummary ps) + warningCount (calculateSiteSummary ps) +
         monitoringCount (calculateSiteSummary ps) + healthyCount (calculateSiteSummary ps) =
         totalPages (calculateSiteSummary ps)"
    if "ps \<noteq> []" "\<forall>p\<in>set ps. severity (decay p) \<noteq> None"
    using severity_partition[of ps "\<lambda>p. severity (decay p)"] that
    by (simp add: calculateSiteSummary_nonempty(1-5))
  have crit: "healthScore (calculateSiteSummary ps) = 0"
    if "ps \<noteq> []" "\<forall>p\<in>set ps. severity (decay p) = Some Critical"
  proof -
    have "filter (\<lambda>p. severity (decay p) = Some Healthy) ps = []"
         "filter (\<lambda>p. severity (decay p) = Some Monitoring) ps = []"
      using that(2) by (simp_all add: filter_none)
    then show ?thesis
      using that(1) by (simp add: calculateSiteSummary_nonempty(1,4,5,6) ddiv_0 dmul_0)
  qed
  have partb: "criticalCount (calculateSiteSummary_basic bs) + warningCount (calculateSiteSummary_basic bs) +
      monitoringCount (calculateSiteSummary_basic bs) + healthyCount (calculateSiteSummary_basic bs) =
      totalPages (calculateSiteSummary_basic bs)"
    if "bs \<noteq> []"
    using severity_partition_basic[of "\<lambda>p. dm_severity (decay p)" bs] that
    by (simp add: calculateSiteSummary_basic_nonempty(1-5))
  have critb: "healthScore (calculateSiteSummary_basic bs) = 0"
    if "bs \<noteq> []" "\<forall>p\<in>set bs. dm_severity (decay p) = Critical"
  proof -
    have "filter (\<lambda>p. dm_severity (decay p) = Healthy) bs = []"
         "filter (\<lambda>p. dm_severity (decay p) = Monitoring) bs = []"
      using that(2) by (simp_all add: filter_none)
    then show ?thesis
      using that(1) by (simp add: calculateSiteSummary_basic_nonempty(1,4,5,6) ddiv_0 dmul_0)
  qed
  have rev: "ps \<noteq> [] \<longrightarrow>
      totalPages (calculateSiteSummary ps) = length ps \<and>
      criticalCount (calculateSiteSummary ps) =
        length (filter (\<lambda>p. severity (decay p) = Some Critical) ps) \<and>
      warningCount (calculateSiteSummary ps) =
        length (filter (\<lambda>p. severity (decay p) = Some Warning) ps) \<and>
      monitoringCount (calculateSiteSummary ps) =
        length (filter (\<lambda>p. severity (decay p) = Some Monitoring) ps) \<and>
      healthyCount (calculateSiteSummary ps) =
        length (filter (\<lambda>p. severity (decay p) = Some Healthy) ps) \<and>
      healthScore (calculateSiteSummary ps) =
        round (dmul (ddiv (of_nat (healthyCount (calculateSiteSummary ps) + monitoringCount (calculateSiteSummary ps)))
                          (of_nat (totalPages (calculateSiteSummary ps)))) 100) \<and>
      avgDecayScore (calculateSiteSummary ps) =
        of_int (round (dmul (ddiv (foldl dadd 0 (map (\<lambda>p. of_int (score (decay p))) ps))
                                  (of_nat (length ps))) 10)) / 10 \<and>
      ((\<forall>p\<in>set ps. severity (decay p) \<noteq> None) \<longrightarrow>
         criticalCount (calculateSiteSummary ps) + warningCount (calculateSiteSummary ps) +
         monitoringCount (calculateSiteSummary ps) + healthyCount (calculateSiteSummary ps) =
         totalPages (calculateSiteSummary ps)) \<and>
      ((\<forall>p\<in>set ps. severity (decay p) = Some Critical) \<longrightarrow>
         healthScore (calculateSiteSummary ps) = 0)"
  proof (intro impI conjI)
    assume ne: "ps \<noteq> []"
    note f = calculateSiteSummary_nonempty[OF ne]
    show "totalPages (calculateSiteSummary ps) = length ps" by (rule f(1))
    show "criticalCount (calculateSiteSummary ps) =
        length (filter (\<lambda>p. severity (decay p) = Some Critical) ps)" by (rule f(2))
    show "warningCount (calculateSiteSummary ps) =
        length (filter (\<lambda>p. severity (decay p) = Some Warning) ps)" by (rule f(3))
    show "monitoringCount (calculateSiteSummary ps) =
        length (filter (\<lambda>p. severity (decay p) = Some Monitoring) ps)" by (rule f(4))
    show "healthyCount (calculateSiteSummary ps) =
        length (filter (\<lambda>p. severity (decay p) = Some Healthy) ps)" by (rule f(5))
    show "healthScore (calculateSiteSummary ps) =
        round (dmul (ddiv (of_nat (healthyCount (calculateSiteSummary ps) + monitoringCount (calculateSiteSummary ps)))
                          (of_nat (totalPages (calculateSiteSummary ps)))) 100)" by (rule f(6))
    show "avgDecayScore (calculateSiteSummary ps) =
        of_int (round (dmul (ddiv (foldl dadd 0 (map (\<lambda>p. of_int (score (decay p))) ps))
                                  (of_nat (length ps))) 10)) / 10" by (rule f(7))
  next
    assume "ps \<noteq> []" "\<forall>p\<in>set ps. severity (decay p) \<noteq> None"
    then show "criticalCount (calculateSiteSummary ps) + warningCount (calculateSiteSummary ps) +
         monitoringCount (calculateSiteSummary ps) + healthyCount (calculateSiteSummary ps) =
         totalPages (calculateSiteSummary ps)" by (rule part)
  next
    assume "ps \<noteq> []" "\<forall>p\<in>set ps. severity (decay p) = Some Critical"
    then show "healthScore (calculateSiteSummary ps) = 0" by (rule crit)
  qed
  have bas: "bs \<noteq> [] \<longrightarrow>
      totalPages (calculateSiteSummary_basic bs) = length bs \<and>
      criticalCount (calculateSiteSummary_basic bs) =
        length (filter (\<lambda>p. dm_severity (decay p) = Critical) bs) \<and>
      warningCount (calculateSiteSummary_basic bs) =
        length (filter (\<lambda>p. dm_severity (decay p) = Warning) bs) \<and>
      monitoringCount (calculateSiteSummary_basic bs) =
        length (filter (\<lambda>p. dm_severity (decay p) = Monitoring) bs) \<and>
      healthyCount (calculateSiteSummary_basic bs) =
        length (filter (\<lambda>p. dm_severity (decay p) = Healthy) bs) \<and>
      healthScore (calculateSiteSummary_basic bs) =
        round (dmul (ddiv (of_nat (healthyCount (calculateSiteSummary_basic bs) + monitoringCount (calculateSiteSummary_basic bs)))
                          (of_nat (totalPages (calculateSiteSummary_basic bs)))) 100) \<and>
      avgDecayScore (calculateSiteSummary_basic bs) =
        of_int (round (dmul (ddiv (foldl dadd 0 (map (\<lambda>p. dm_score (decay p)) bs))
                                  (of_nat (length bs))) 10)) / 10 \<and>
      criticalCount (calculateSiteSummary_basic bs) + warningCount (calculateSiteSummary_basic bs) +
      monitoringCount (calculateSiteSummary_basic bs) + healthyCount (calculateSiteSummary_basic bs) =
      totalPages (calculateSiteSummary_basic bs) \<and>
      ((\<forall>p\<in>set bs. dm_severity (decay p) = Critical) \<longrightarrow>
         healthScore (calculateSiteSummary_basic bs) = 0)"
  proof (intro impI conjI)
    assume ne: "bs \<noteq> []"
    note f = calculateSiteSummary_basic_nonempty[OF ne]
    show "totalPages (calculateSiteSummary_basic bs) = length bs" by (rule f(1))
    show "criticalCount (calculateSiteSummary_basic bs) =
        length (filter (\<lambda>p. dm_severity (decay p) = Critical) bs)" by (rule f(2))
    show "warningCount (calculateSiteSummary_basic bs) =
        length (filter (\<lambda>p. dm_severity (decay p) = Warning) bs)" by (rule f(3))
    show "monitoringCount (calculateSiteSummary_basic bs) =
        length (filter (\<lambda>p. dm_severity (decay p) = Monitoring) bs)" by (rule f(4))
    show "healthyCount (calculateSiteSummary_basic bs) =
        length (filter (\<lambda>p. dm_severity (decay p) = Healthy) bs)" by (rule f(5))
    show "healthScore (calculateSiteSummary_basic bs) =
        round (dmul (ddiv (of_nat (healthyCount (calculateSiteSummary_basic bs) + monitoringCount (calculateSiteSummary_basic bs)))
                          (of_nat (totalPages (calculateSiteSummary_basic bs)))) 100)" by (rule f(6))
    show "avgDecayScore (calculateSiteSummary_basic bs) =
        of_int (round (dmul (ddiv (foldl dadd 0 (map (\<lambda>p. dm_score (decay p)) bs))
                                  (of_nat (length bs))) 10)) / 10" by (rule f(7))
    show "criticalCount (calculateSiteSummary_basic bs) + warningCount (calculateSiteSummary_basic bs) +
      monitoringCount (calculateSiteSummary_basic bs) + healthyCount (calculateSiteSummary_basic bs) =
      totalPages (calculateSiteSummary_basic bs)" by (rule partb[OF ne])
  next
    assume "bs \<noteq> []" "\<forall>p\<in>set bs. dm_severity (decay p) = Critical"
    then show "healthScore (calculateSiteSummary_basic bs) = 0" by (rule critb)
  qed
  show ?thesis
    using e eb rev bas by (intro conjI)
qed

lemma fixture_fields:
  "severity (decay (analyzed_fixture cls sc)) = map_of severityMap cls"
  "score (decay (analyzed_fixture cls sc)) = sc"
  "dm_severity (decay (basic_fixture x)) = severityOfScore x"
  "dm_score (decay (basic_fixture x)) = x"
  by (simp_all add: analyzed_fixture_def basic_fixture_def page_comparison.extend_def
        analyzed_page.fields_def)

text \<open>
  The summary at three pages of which two are healthy or monitored (67, average 2.3), at
  forty pages of which 23 are healthy (the quotient times 100 is the double
  \<open>57.49999999999999\<close> and the health score 57), at critical pages only (0), and of the
  basic analyzer at the scores 0.1 and 4.6 (average 2.3).
\<close>
theorem site_summary_spec_witness:
  "map (\<lambda>p. severity (decay p)) mixed_pages = [Some Healthy, Some Critical, Some Monitoring] \<and>
   healthScore (calculateSiteSummary mixed_pages) = 67 \<and>
   avgDecayScore (calculateSiteSummary mixed_pages) = 23 / 10 \<and>
   criticalCount (calculateSiteSummary mixed_pages) + warningCount (calculateSiteSummary mixed_pages) +
     monitoringCount (calculateSiteSummary mixed_pages) + healthyCount (calculateSiteSummary mixed_pages) = 3 \<and>
   map (\<lambda>p. severity (decay p)) critical_pages = [Some Critical, Some Critical] \<and>
   healthScore (calculateSiteSummary critical_pages) = 0 \<and>
   map (\<lambda>p. dm_severity (decay p)) critical_pages_basic = [Critical, Critical] \<and>
   healthScore (calculateSiteSummary_basic critical_pages_basic) = 0 \<and>
   totalPages (calculateSiteSummary forty_pages) = 40 \<and>
   healthyCount (calculateSiteSummary forty_pages) = 23 \<and>
   monitoringCount (calculateSiteSummary forty_pages) = 0 \<and>
   dmul (ddiv 23 40) 100 = 8092405580431359 / 140737488355328 \<and>
   healthScore (calculateSiteSummary forty_pages) = 57 \<and>
   map (\<lambda>p. dm_score (decay p)) tenth_pages = [1 / 10, 46 / 10] \<and>
   avgDecayScore (calculateSiteSummary_basic tenth_pages) = 23 / 10"
proof -
  have f: "forty_pages \<noteq> []" "length forty_pages = 40"
    "length (filter (\<lambda>p. severity (decay p) = Some Healthy) forty_pages) = 23"
    "length (filter (\<lambda>p. severity (decay p) = Some Monitoring) forty_pages) = 0"
    by (simp_all add: forty_pages_def fixture_fields severityMap_def)
  have forty: "totalPages (calculateSiteSummary forty_pages) = 40 \<and>
      healthyCount (calculateSiteSummary forty_pages) = 23 \<and>
      monitoringCount (calculateSiteSummary forty_pages) = 0 \<and>
      healthScore (calculateSiteSummary forty_pages) = 57"
    using site_summary_spec[of forty_pages tenth_pages] f(1)
    by (simp add: f(2-4) double_evals round_def floor_rat_numeral)
  have v: "dmul (ddiv 23 40) 100 = 8092405580431359 / 140737488355328"
    by (simp add: double_evals)
  have rest: "map (\<lambda>p. severity (decay p)) mixed_pages = [Some Healthy, Some Critical, Some Monitoring] \<and>
   healthScore (calculateSiteSummary mixed_pages) = 67 \<and>
   avgDecayScore (calculateSiteSummary mixed_pages) = 23 / 10 \<and>
   criticalCount (calculateSiteSummary mixed_pages) + warningCount (calculateSiteSummary mixed_pages) +
     monitoringCount (calculateSiteSummary mixed_pages) + healthyCount (calculateSiteSummary mixed_pages) = 3 \<and>
   map (\<lambda>p. severity (decay p)) critical_pages = [Some Critical, Some Critical] \<and>
   healthScore (calculateSiteSummary critical_pages) = 0 \<and>
   map (\<lambda>p. dm_severity (decay p)) critical_pages_basic = [Critical, Critical] \<and>
   healthScore (calculateSiteSummary_basic critical_pages_basic) = 0 \<and>
   map (\<lambda>p. dm_score (decay p)) tenth_pages = [1 / 10, 46 / 10] \<and>
   avgDecayScore (calculateSiteSummary_basic tenth_pages) = 23 / 10"
    using site_summary_spec[of mixed_pages critical_pages_basic]
          site_summary_spec[of critical_pages tenth_pages]
    by (simp add: mixed_pages_def critical_pages_def critical_pages_basic_def tenth_pages_def
          fixture_fields severityMap_def severityOfScore_def round_def floor_rat_numeral
          double_evals dmul_0 ddiv_0 floor_rat_half)
  show ?thesis
    using forty v rest by simp
qed

lemma map_result_total:
  "(\<forall>x\<in>set xs. f x = Inr (g x)) \<Longrightarrow> map_result f xs = Inr (map g xs)"
  by (induction xs) simp_all

lemma annotate_present:
  assumes "previous pg \<noteq> None"
  shows "annotate w pg =
           Inr (page_comparison.extend pg (analyzed_page.fields (projr (diagnoseDecay pg w))))"
proof -
  from assms obtain prev where "previous pg = Some prev" by auto
  then obtain d where "diagnoseDecay pg w = Inr d"
    using diagnoseDecay_Some[of pg prev w] by blast
  then show ?thesis by (simp add: annotate_def)
qed

lemma annotate_basic_present:
  assumes "previous pg \<noteq> None"
  shows "annotate_basic pg =
           Inr (page_comparison.extend pg
                  (analyzed_page.fields (projr (calculateDecayMetrics (current pg) (previous pg)))))"
proof -
  from assms obtain prev where "previous pg = Some prev" by auto
  then obtain m where "calculateDecayMetrics (current pg) (previous pg) = Inr m"
    using calculateDecayMetrics_Some[of "previous pg" prev "current pg"] by blast
  then show ?thesis by (simp add: annotate_basic_def)
qed

lemma truncate_extend:
  "page_comparison.truncate (page_comparison.extend pg (analyzed_page.fields d)) = pg"
  by (simp add: page_comparison.truncate_def page_comparison.extend_def)

lemma decay_extend: "decay (page_comparison.extend pg (analyzed_page.fields d)) = d"
  by (simp add: page_comparison.extend_def analyzed_page.fields_def)

lemma extend_fields:
  "current (page_comparison.extend pg e) = current pg"
  "previous (page_comparison.extend pg e) = previous pg"
  "page (page_comparison.extend pg e) = page pg"
  by (simp_all add: page_comparison.extend_def)

lemma sorted_falling:
  fixes f :: "'a \<Rightarrow> 'b :: {linordered_idom}"
  shows "sorted_wrt (\<lambda>a b. f b \<le> f a) (sort_key (\<lambda>p. - f p) xs)"
  using sorted_sort_key[of "\<lambda>p. - f p" xs] by (simp add: sorted_map)

lemma analyzeContentDecay_result:
  "analyzeContentDecay cr opts =
     Inr \<lparr> pages =
             sort_key (\<lambda>p. - score (decay p))
               (map (\<lambda>pg. page_comparison.extend pg
                       (analyzed_page.fields
                          (projr (diagnoseDecay pg
                             (case opt_weights opts of Some w \<Rightarrow> w | None \<Rightarrow> defaultWeights)))))
                  (filter (\<lambda>pg. previous pg \<noteq> None) (pages_of cr))),
           dateRanges = dateRanges_of cr \<rparr>"
proof -
  let ?w = "case opt_weights opts of Some w \<Rightarrow> w | None \<Rightarrow> defaultWeights"
  have "map_result (annotate ?w) (filter (\<lambda>pg. previous pg \<noteq> None) (pages_of cr)) =
          Inr (map (\<lambda>pg. page_comparison.extend pg
                       (analyzed_page.fields (projr (diagnoseDecay pg ?w))))
                 (filter (\<lambda>pg. previous pg \<noteq> None) (pages_of cr)))"
    by (rule map_result_total) (simp add: annotate_present)
  then show ?thesis by (simp add: analyzeContentDecay_def Let_def)
qed

lemma analyzeContentDecay_basic_result:
  "analyzeContentDecay_basic ps =
     Inr (sort_key (\<lambda>p. - dm_score (decay p))
            (map (\<lambda>pg. page_comparison.extend pg
                    (analyzed_page.fields (projr (calculateDecayMetrics (current pg) (previous pg)))))
               (filter (\<lambda>pg. previous pg \<noteq> None) ps)))"
proof -
  have "map_result annotate_basic (filter (\<lambda>pg. previous pg \<noteq> None) ps) =
          Inr (map (\<lambda>pg. page_comparison.extend pg
                    (analyzed_page.fields (projr (calculateDecayMetrics (current pg) (previous pg)))))
                 (filter (\<lambda>pg. previous pg \<noteq> None) ps))"
    by (rule map_result_total) (simp add: annotate_basic_present)
  then show ?thesis by (simp add: analyzeContentDecay_basic_def)
qed

section \<open>The analysis run\<close>

text \<open>
  Claim C10. For every input the analysis returns a result and never throws. The pages
  it returns, with the \<open>decay\<close> property taken off, are exactly the input entries whose
  previous metrics are present, each as often as it occurs in the input; the \<open>decay\<close> of
  each is the diagnosis computed from that entry; and the list is in non-increasing order
  of score. This holds for the revival engine and for the basic analyzer.
\<close>
theorem analysis_filters_annotates_sorts:
  "\<exists>r bs. analyzeContentDecay cr opts = Inr r \<and>
     analyzeContentDecay_basic (pages_of cr) = Inr bs \<and>
     mset (map page_comparison.truncate (pages r)) =
       mset (filter (\<lambda>pg. previous pg \<noteq> None) (pages_of cr)) \<and>
     (\<forall>q\<in>set (pages r). diagnoseDecay (page_comparison.truncate q) w = Inr (decay q)) \<and>
     sorted_wrt (\<lambda>a b. score (decay b) \<le> score (decay a)) (pages r) \<and>
     dateRanges r = dateRanges_of cr \<and>
     mset (map page_comparison.truncate bs) =
       mset (filter (\<lambda>pg. previous pg \<noteq> None) (pages_of cr)) \<and>
     (\<forall>q\<in>set bs. calculateDecayMetrics (current q) (previous q) = Inr (decay q)) \<and>
     sorted_wrt (\<lambda>a b. dm_score (decay b) \<le> dm_score (decay a)) bs"
proof -
  let ?w = "case opt_weights opts of Some w \<Rightarrow> w | None \<Rightarrow> defaultWeights"
  let ?kept = "filter (\<lambda>pg. previous pg \<noteq> None) (pages_of cr)"
  let ?ann = "\<lambda>pg. page_comparison.extend pg (analyzed_page.fields (projr (diagnoseDecay pg ?w)))"
  let ?annb = "\<lambda>pg. page_comparison.extend pg
                    (analyzed_page.fields (projr (calculateDecayMetrics (current pg) (previous pg))))"
  define r where "r = \<lparr> pages = sort_key (\<lambda>p. - score (decay p)) (map ?ann ?kept),
                        dateRanges = dateRanges_of cr \<rparr>"
  define bs where "bs = sort_key (\<lambda>p. - dm_score (decay p)) (map ?annb ?kept)"
  have r: "analyzeContentDecay cr opts = Inr r"
    unfolding r_def by (rule analyzeContentDecay_result)
  have b: "analyzeContentDecay_basic (pages_of cr) = Inr bs"
    unfolding bs_def by (rule analyzeContentDecay_basic_result)
  have id1: "map page_comparison.truncate (map ?ann ?kept) = ?kept"
    by (simp add: truncate_extend comp_def)
  have id2: "map page_comparison.truncate (map ?annb ?kept) = ?kept"
    by (simp add: truncate_extend comp_def)
  have m1: "mset (map page_comparison.truncate (pages r)) = mset ?kept"
  proof -
    have "mset (map page_comparison.truncate (sort_key (\<lambda>p. - score (decay p)) (map ?ann ?kept))) =
            mset (map page_comparison.truncate (map ?ann ?kept))"
      by (simp only: mset_map mset_sort)
    then show ?thesis by (simp only: id1 r_def analysis_result.simps)
  qed
  have m2: "mset (map page_comparison.truncate bs) = mset ?kept"
  proof -
    have "mset (map page_comparison.truncate (sort_key (\<lambda>p. - dm_score (decay p)) (map ?annb ?kept))) =
            mset (map page_comparison.truncate (map ?annb ?kept))"
      by (simp only: mset_map mset_sort)
    then show ?thesis by (simp only: id2 bs_def)
  qed
  have d1: "\<forall>q\<in>set (pages r). diagnoseDecay (page_comparison.truncate q) w = Inr (decay q)"
  proof
    fix q assume "q \<in> set (pages r)"
    then obtain pg where pg: "pg \<in> set ?kept" "q = ?ann pg"
      by (auto simp add: r_def)
    then obtain prev where "previous pg = Some prev" by auto
    then obtain d where "diagnoseDecay pg ?w = Inr d"
      using diagnoseDecay_Some[of pg prev ?w] by blast
    then show "diagnoseDecay (page_comparison.truncate q) w = Inr (decay q)"
      using diagnoseDecay_weights[of pg w ?w]
      by (simp add: pg(2) truncate_extend decay_extend)
  qed
  have d2: "\<forall>q\<in>set bs. calculateDecayMetrics (current q) (previous q) = Inr (decay q)"
  proof
    fix q assume "q \<in> set bs"
    then obtain pg where pg: "pg \<in> set ?kept" "q = ?annb pg"
      by (auto simp add: bs_def)
    then obtain prev where "previous pg = Some prev" by auto
    then obtain m where "calculateDecayMetrics (current pg) (previous pg) = Inr m"
      using calculateDecayMetrics_Some[of "previous pg" prev "current pg"] by blast
    then show "calculateDecayMetrics (current q) (previous q) = Inr (decay q)"
      by (simp add: pg(2) decay_extend extend_fields)
  qed
  have s1: "sorted_wrt (\<lambda>a b. score (decay b) \<le> score (decay a)) (pages r)"
    by (simp add: r_def sorted_falling)
  have s2: "sorted_wrt (\<lambda>a b. dm_score (decay b) \<le> dm_score (decay a)) bs"
    by (simp add: bs_def sorted_falling)
  have dr: "dateRanges r = dateRanges_of cr" by (simp add: r_def)
  show ?thesis
    using r b m1 d1 s1 dr m2 d2 s2 by blast
qed

theorem analysis_filters_annotates_sorts_witness:
  "filter (\<lambda>pg. previous pg \<noteq> None) run_input =
     [example_rank_rot (1 / 10) (3 / 20) (2 / 15) 11, example_zombie 1] \<and>
   (\<exists>r bs. analyzeContentDecay (PageArray run_input) no_options = Inr r \<and>
     analyzeContentDecay_basic run_input = Inr bs \<and>
     mset (map page_comparison.truncate (pages r)) =
       mset [example_rank_rot (1 / 10) (3 / 20) (2 / 15) 11, example_zombie 1] \<and>
     sorted_wrt (\<lambda>a b. score (decay b) \<le> score (decay a)) (pages r) \<and>
     mset (map page_comparison.truncate bs) =
       mset [example_rank_rot (1 / 10) (3 / 20) (2 / 15) 11, example_zombie 1] \<and>
     sorted_wrt (\<lambda>a b. dm_score (decay b) \<le> dm_score (decay a)) bs)"
proof -
  have f: "filter (\<lambda>pg. previous pg \<noteq> None) run_input =
     [example_rank_rot (1 / 10) (3 / 20) (2 / 15) 11, example_zombie 1]"
    by (simp add: run_input_def example_rank_rot_def new_page_def example_zombie_def)
  obtain r bs where rb: "analyzeContentDecay (PageArray run_input) no_options = Inr r"
     "analyzeContentDecay_basic (pages_of (PageArray run_input)) = Inr bs"
     "mset (map page_comparison.truncate (pages r)) =
       mset (filter (\<lambda>pg. previous pg \<noteq> None) (pages_of (PageArray run_input)))"
     "sorted_wrt (\<lambda>a b. score (decay b) \<le> score (decay a)) (pages r)"
     "mset (map page_comparison.truncate bs) =
       mset (filter (\<lambda>pg. previous pg \<noteq> None) (pages_of (PageArray run_input)))"
     "sorted_wrt (\<lambda>a b. dm_score (decay b) \<le> dm_score (decay a)) bs"
    using analysis_filters_annotates_sorts[of "PageArray run_input" no_options defaultWeights]
    by blast
  have p: "pages_of (PageArray run_input) = run_input" by simp
  show ?thesis
    using rb f unfolding p by (intro conjI exI[of _ r] exI[of _ bs]) (simp_all only:)
qed

declare decimal.simps [simp del]






section \<open>The CSV export\<close>


end
